theory Spec2Isabelle
  imports Main
begin

unbundle bit_operations_syntax

section \<open>Python values and exceptions\<close>

text \<open>
  The module \<^verbatim>\<open>paramiko/ssh_gss.py\<close> is Python 2 code: \<^verbatim>\<open>str\<close> is a string of
  bytes, \<^verbatim>\<open>chr(50)\<close> is a one-byte \<^verbatim>\<open>str\<close> and is appended to the result of
  \<^verbatim>\<open>struct.pack\<close>. A Python 2 \<^verbatim>\<open>str\<close> is modelled as a \<open>string\<close>, whose characters
  are bytes. Every exception the code can raise is a value of \<open>error\<close>.
\<close>

datatype error =
    SSHException string
  | NotImplementedError
  | TypeError
  | AttributeError
  | ValueError
  | StructError
  | UnicodeDecodeError
  | PyAsn1Error
  | BackendError nat
  | NotModelled

text \<open>The values that the delegation query and the MIC check hand back.\<close>

datatype pyval = PyNone | PyBool bool | PyInt int

fun truthy :: "pyval \<Rightarrow> bool" where
  "truthy PyNone = False"
| "truthy (PyBool b) = b"
| "truthy (PyInt n) = (n \<noteq> 0)"

text \<open>\<^verbatim>\<open>a and b\<close> is \<open>a\<close> when \<open>a\<close> is falsy, else \<open>b\<close>; \<^verbatim>\<open>a or b\<close> is \<open>a\<close> when \<open>a\<close> is truthy.\<close>

definition py_and :: "pyval \<Rightarrow> pyval \<Rightarrow> pyval" where
  "py_and a b = (if truthy a then b else a)"

definition py_or :: "pyval \<Rightarrow> pyval \<Rightarrow> pyval" where
  "py_or a b = (if truthy a then a else b)"

text \<open>
  \<^verbatim>\<open>s.find(sub)\<close>: the lowest index at which \<open>sub\<close> occurs in \<open>s\<close>, or \<open>-1\<close>.
\<close>

fun find_from :: "string \<Rightarrow> string \<Rightarrow> nat \<Rightarrow> int" where
  "find_from sub [] i = (if sub = [] then int i else - 1)"
| "find_from sub (c # cs) i =
     (if take (length sub) (c # cs) = sub then int i else find_from sub cs (Suc i))"

definition py_find :: "string \<Rightarrow> string \<Rightarrow> int" where
  "py_find s sub = find_from sub s 0"

text \<open>
  \<^verbatim>\<open>str.encode(s)\<close> on a Python 2 byte string decodes it with the default codec
  (ASCII) and encodes it again: it returns \<open>s\<close> when every byte is below 128 and raises
  \<^verbatim>\<open>UnicodeDecodeError\<close> otherwise.
\<close>

definition str_encode :: "string \<Rightarrow> error + string" where
  "str_encode s =
     (if list_all (\<lambda>c. (of_char c :: nat) < 128) s then Inr s else Inl UnicodeDecodeError)"

text \<open>\<^verbatim>\<open>chr(n)\<close>: the one-byte string of \<open>n\<close>, \<^verbatim>\<open>ValueError\<close> outside \<open>range(256)\<close>.\<close>

definition py_chr :: "int \<Rightarrow> error + string" where
  "py_chr n = (if 0 \<le> n \<and> n < 256 then Inr [char_of n] else Inl ValueError)"

text \<open>
  \<^verbatim>\<open>struct.pack("!I", n)\<close>: four bytes, most significant first; \<^verbatim>\<open>struct.error\<close>
  when \<open>n\<close> does not fit an unsigned 32-bit integer.
\<close>

definition struct_pack_I :: "int \<Rightarrow> error + string" where
  "struct_pack_I n =
     (if 0 \<le> n \<and> n < 2 ^ 32
      then Inr [char_of (n div 2 ^ 24), char_of (n div 2 ^ 16), char_of (n div 2 ^ 8), char_of n]
      else Inl StructError)"

text \<open>Sequencing of computations that may raise.\<close>

definition bind :: "error + 'a \<Rightarrow> ('a \<Rightarrow> error + 'b) \<Rightarrow> error + 'b" where
  "bind m f = (case m of Inl e \<Rightarrow> Inl e | Inr x \<Rightarrow> f x)"

section \<open>Constants of \<^verbatim>\<open>paramiko/common.py\<close>\<close>

definition MSG_USERAUTH_REQUEST :: int where
  "MSG_USERAUTH_REQUEST = 50"

section \<open>The shared base class \<^verbatim>\<open>_SSH_GSSAuth\<close>\<close>

definition make_uint32 :: "int \<Rightarrow> error + string" where
  "make_uint32 integer = struct_pack_I integer"

text \<open>
  \<^verbatim>\<open>_ssh_build_mic\<close>. The user name is \<^verbatim>\<open>self._username\<close> at both call sites and is
  \<^verbatim>\<open>None\<close> until a caller sets it; \<^verbatim>\<open>len(None)\<close> raises \<^verbatim>\<open>TypeError\<close>.
\<close>

definition ssh_build_mic :: "string \<Rightarrow> string option \<Rightarrow> string \<Rightarrow> string \<Rightarrow> error + string" where
  "ssh_build_mic session_id username service auth_method =
     bind (make_uint32 (int (length session_id))) (\<lambda>l1.
     bind (py_chr MSG_USERAUTH_REQUEST) (\<lambda>b.
     bind (case username of None \<Rightarrow> Inl TypeError | Some u \<Rightarrow> Inr u) (\<lambda>u.
     bind (make_uint32 (int (length u))) (\<lambda>l2.
     bind (str_encode u) (\<lambda>u'.
     bind (make_uint32 (int (length service))) (\<lambda>l3.
     bind (str_encode service) (\<lambda>service'.
     bind (make_uint32 (int (length auth_method))) (\<lambda>l4.
     bind (str_encode auth_method) (\<lambda>auth_method'.
     Inr (l1 @ session_id @ b @ l2 @ u' @ l3 @ service' @ l4 @ auth_method'))))))))))"

section \<open>The wire formats as the specification words them\<close>

text \<open>
  \<open>uint32(n)\<close>: a non-negative integer as 4 bytes, big-endian, unsigned.
\<close>

definition uint32 :: "nat \<Rightarrow> string" where
  "uint32 n = [char_of (n div 2 ^ 24), char_of (n div 2 ^ 16), char_of (n div 2 ^ 8), char_of n]"

text \<open>The value of a byte string read as a big-endian unsigned number.\<close>

definition be_value :: "string \<Rightarrow> nat" where
  "be_value bs = foldl (\<lambda>acc c. acc * 256 + of_char c) 0 bs"

definition is_ascii :: "string \<Rightarrow> bool" where
  "is_ascii s = list_all (\<lambda>c. (of_char c :: nat) < 128) s"

text \<open>
  The MIC payload of RFC 4462, section 3.4, as the specification lists its fields:
  \<open>uint32(len(session_id)) || session_id || byte(50) || uint32(len(username)) || username
  || uint32(len(service)) || service || uint32(len(auth_method)) || auth_method\<close>.
\<close>

definition rfc4462_mic :: "string \<Rightarrow> string \<Rightarrow> string \<Rightarrow> string \<Rightarrow> string" where
  "rfc4462_mic session_id username service auth_method =
     uint32 (length session_id) @ session_id @ [char_of (50 :: nat)] @
     uint32 (length username) @ username @
     uint32 (length service) @ service @
     uint32 (length auth_method) @ auth_method"

section \<open>The DER codec (external library \<^verbatim>\<open>pyasn1\<close>)\<close>

text \<open>
  The module calls \<^verbatim>\<open>univ.ObjectIdentifier\<close>, \<^verbatim>\<open>encoder.encode\<close> and
  \<^verbatim>\<open>decoder.decode\<close> of pyasn1, which is not part of the repository. The operations
  of the module take the library as a parameter (a record of its three entry points), so
  that what is proved of them holds for whatever the library does.

  A decoded value is an OBJECT IDENTIFIER (a tuple of arcs), an OCTET STRING, or a value
  of another ASN.1 type, of which only the string form matters here.
\<close>

datatype asn1 = ObjectIdentifier "nat list" | OctetString string | OtherValue string

fun str_of_nat :: "nat \<Rightarrow> string" where
  "str_of_nat n =
     (if n < 10 then [char_of (48 + n)] else str_of_nat (n div 10) @ [char_of (48 + n mod 10)])"

declare str_of_nat.simps [simp del]

fun join_dots :: "string list \<Rightarrow> string" where
  "join_dots [] = []"
| "join_dots [x] = x"
| "join_dots (x # y # ys) = x @ ''.'' @ join_dots (y # ys)"

text \<open>
  \<^verbatim>\<open>mech.__str__()\<close>: the dotted decimal form of an object identifier, the content
  of an octet string.
\<close>

fun asn1_str :: "asn1 \<Rightarrow> string" where
  "asn1_str (ObjectIdentifier arcs) = join_dots (map str_of_nat arcs)"
| "asn1_str (OctetString s) = s"
| "asn1_str (OtherValue s) = s"

record pyasn1 =
  ObjectIdentifier_of_str :: "string \<Rightarrow> error + asn1"
  encoder_encode :: "asn1 \<Rightarrow> error + string"
  decoder_decode :: "string \<Rightarrow> error + asn1 \<times> string"

subsection \<open>An instance: definite-length DER of object identifiers and octet strings\<close>

text \<open>
  The instance used to run the module on concrete inputs follows X.690 for the two
  primitive types above, with definite lengths. pyasn1 also decodes the other universal
  types; the instance does not cover them and answers \<open>NotModelled\<close> there, which is
  not an exception of the library. No statement below runs the instance on such an
  input.
\<close>

fun split_dots :: "string \<Rightarrow> string \<Rightarrow> string list" where
  "split_dots acc [] = [rev acc]"
| "split_dots acc (c # cs) =
     (if c = CHR ''.'' then rev acc # split_dots [] cs else split_dots (c # acc) cs)"

definition is_digit :: "char \<Rightarrow> bool" where
  "is_digit c = (48 \<le> (of_char c :: nat) \<and> (of_char c :: nat) \<le> 57)"

definition dec_value :: "string \<Rightarrow> nat" where
  "dec_value s = foldl (\<lambda>acc c. acc * 10 + (of_char c - 48)) 0 s"

definition nat_of_str :: "string \<Rightarrow> error + nat" where
  "nat_of_str s =
     (if s \<noteq> [] \<and> list_all is_digit s then Inr (dec_value s) else Inl PyAsn1Error)"

fun sequence_sum :: "(error + 'a) list \<Rightarrow> error + 'a list" where
  "sequence_sum [] = Inr []"
| "sequence_sum (x # xs) = bind x (\<lambda>y. bind (sequence_sum xs) (\<lambda>ys. Inr (y # ys)))"

definition oid_of_str :: "string \<Rightarrow> error + asn1" where
  "oid_of_str s =
     bind (sequence_sum (map nat_of_str (filter (\<lambda>x. x \<noteq> []) (split_dots [] s))))
       (\<lambda>arcs. Inr (ObjectIdentifier arcs))"

fun septets :: "nat \<Rightarrow> nat list" where
  "septets n = (if n < 128 then [n] else septets (n div 128) @ [n mod 128])"

declare septets.simps [simp del]

definition subid_octets :: "nat \<Rightarrow> string" where
  "subid_octets n =
     map (\<lambda>d. char_of (128 + d)) (butlast (septets n)) @ [char_of (last (septets n))]"

fun octets_of_nat :: "nat \<Rightarrow> string" where
  "octets_of_nat n =
     (if n < 256 then [char_of n] else octets_of_nat (n div 256) @ [char_of (n mod 256)])"

declare octets_of_nat.simps [simp del]

definition der_length :: "nat \<Rightarrow> string" where
  "der_length n =
     (if n < 128 then [char_of n]
      else char_of (128 + length (octets_of_nat n)) # octets_of_nat n)"

definition der_encode :: "asn1 \<Rightarrow> error + string" where
  "der_encode v =
     (case v of
        ObjectIdentifier (a # b # arcs) \<Rightarrow>
          (if a \<le> 2 \<and> (a < 2 \<longrightarrow> b < 40)
           then (let body = concat (map subid_octets ((40 * a + b) # arcs))
                 in Inr (char_of (6 :: nat) # der_length (length body) @ body))
           else Inl PyAsn1Error)
      | ObjectIdentifier _ \<Rightarrow> Inl PyAsn1Error
      | OctetString s \<Rightarrow> Inr (char_of (4 :: nat) # der_length (length s) @ s)
      | OtherValue _ \<Rightarrow> Inl NotModelled)"

fun der_subids :: "nat option \<Rightarrow> string \<Rightarrow> error + nat list" where
  "der_subids None [] = Inr []"
| "der_subids (Some a) [] = Inl PyAsn1Error"
| "der_subids p (c # cs) =
     (let v = (case p of None \<Rightarrow> 0 | Some a \<Rightarrow> a) * 128 + (of_char c :: nat) mod 128
      in if p = None \<and> (of_char c :: nat) = 128 then Inl PyAsn1Error
         else if 128 \<le> (of_char c :: nat) then der_subids (Some v) cs
         else bind (der_subids None cs) (\<lambda>rest. Inr (v # rest)))"

definition der_oid :: "string \<Rightarrow> error + nat list" where
  "der_oid body =
     bind (der_subids None body) (\<lambda>subids.
       case subids of
         [] \<Rightarrow> Inl PyAsn1Error
       | s # rest \<Rightarrow>
           Inr ((if s < 40 then [0, s] else if s < 80 then [1, s - 40] else [2, s - 80]) @ rest))"

definition der_decode :: "string \<Rightarrow> error + asn1 \<times> string" where
  "der_decode s =
     (case s of
        t # l # r \<Rightarrow>
          bind (if (of_char l :: nat) < 128 then Inr (of_char l :: nat, r)
                else if (of_char l :: nat) = 128 \<or> length r < of_char l - 128
                then Inl PyAsn1Error
                else Inr (be_value (take (of_char l - 128) r), drop (of_char l - 128) r))
            (\<lambda>(n, r'). if length r' < n then Inl PyAsn1Error
               else if (of_char t :: nat) = 6
               then bind (der_oid (take n r')) (\<lambda>arcs. Inr (ObjectIdentifier arcs, drop n r'))
               else if (of_char t :: nat) = 4 then Inr (OctetString (take n r'), drop n r')
               else Inl NotModelled)
      | _ \<Rightarrow> Inl PyAsn1Error)"

definition der :: pyasn1 where
  "der = \<lparr>ObjectIdentifier_of_str = oid_of_str, encoder_encode = der_encode,
          decoder_decode = der_decode\<rparr>"

section \<open>The session object\<close>

text \<open>
  The fields that \<^verbatim>\<open>_SSH_GSSAuth.__init__\<close> sets. The two context fields hold
  references to objects owned by the security library, or \<^verbatim>\<open>None\<close>.
\<close>

record gss_auth =
  auth_method :: string
  gss_deleg_creds :: bool
  gss_host :: "string option"
  username :: "string option"
  session_id :: "string option"
  service :: string
  krb5_mech :: string
  gss_ctxt :: "nat option"
  gss_ctxt_status :: bool
  gss_srv_ctxt :: "nat option"
  gss_srv_ctxt_status :: bool
  cc_file :: "string option"

definition gss_auth_init :: "string \<Rightarrow> bool \<Rightarrow> gss_auth" where
  "gss_auth_init am dc =
     \<lparr>auth_method = am, gss_deleg_creds = dc, gss_host = None, username = None,
      session_id = None, service = ''ssh-connection'', krb5_mech = ''1.2.840.113554.1.2.2'',
      gss_ctxt = None, gss_ctxt_status = False, gss_srv_ctxt = None,
      gss_srv_ctxt_status = False, cc_file = None\<rparr>"

text \<open>\<^verbatim>\<open>set_service\<close>: the assignment runs when \<^verbatim>\<open>service.find("ssh-")\<close> is truthy.\<close>

definition set_service :: "string \<Rightarrow> 'a gss_auth_scheme \<Rightarrow> 'a gss_auth_scheme" where
  "set_service name self =
     (if truthy (PyInt (py_find name ''ssh-'')) then self\<lparr>service := name\<rparr> else self)"

definition set_username :: "string \<Rightarrow> 'a gss_auth_scheme \<Rightarrow> 'a gss_auth_scheme" where
  "set_username name self = self\<lparr>username := Some name\<rparr>"

text \<open>\<^verbatim>\<open>ssh_gss_oids\<close>, with \<^verbatim>\<open>mode\<close> defaulting to \<^verbatim>\<open>"client"\<close> at the call.\<close>

definition ssh_gss_oids :: "pyasn1 \<Rightarrow> 'a gss_auth_scheme \<Rightarrow> string \<Rightarrow> error + string" where
  "ssh_gss_oids asn self mode =
     bind (make_uint32 1) (\<lambda>OIDs.
     bind (ObjectIdentifier_of_str asn (krb5_mech self)) (\<lambda>oid.
     bind (encoder_encode asn oid) (\<lambda>krb5_OID.
     bind (make_uint32 (int (length krb5_OID))) (\<lambda>OID_len.
     if mode = ''server'' then Inr (OID_len @ krb5_OID)
     else Inr (OIDs @ OID_len @ krb5_OID)))))"

definition ssh_check_mech :: "pyasn1 \<Rightarrow> 'a gss_auth_scheme \<Rightarrow> string \<Rightarrow> error + bool" where
  "ssh_check_mech asn self desired_mech =
     bind (decoder_decode asn desired_mech) (\<lambda>(mech, rest).
     if asn1_str mech \<noteq> krb5_mech self then Inr False else Inr True)"

section \<open>Objects of the security library\<close>

text \<open>
  A security context is an object of the library (python-gssapi or pywin32), created by
  a constructor and changed in place by its methods. The objects live in a store indexed
  by references; a constructor call takes the next fresh reference. \<open>'c\<close> is the state
  of one context object.
\<close>

record 'c world =
  store :: "nat \<Rightarrow> 'c"
  next_ref :: nat

definition new_object :: "'c \<Rightarrow> 'c world \<Rightarrow> nat \<times> 'c world" where
  "new_object c w =
     (next_ref w, w\<lparr>store := (store w)(next_ref w := c), next_ref := Suc (next_ref w)\<rparr>)"

text \<open>
  A method call \<^verbatim>\<open>ref.m(...)\<close>: \<^verbatim>\<open>AttributeError\<close> when \<open>ref\<close> is \<^verbatim>\<open>None\<close>,
  else the method runs on the object and leaves it changed in the store.
\<close>

definition call_method ::
  "nat option \<Rightarrow> ('c \<Rightarrow> (error + 'r) \<times> 'c) \<Rightarrow> 'c world \<Rightarrow> (error + 'r) \<times> 'c world" where
  "call_method ref m w =
     (case ref of
        None \<Rightarrow> (Inl AttributeError, w)
      | Some h \<Rightarrow> (fst (m (store w h)), w\<lparr>store := (store w)(h := snd (m (store w h)))\<rparr>))"

text \<open>An attribute read \<^verbatim>\<open>ref.a\<close>.\<close>

definition read_attr :: "nat option \<Rightarrow> ('c \<Rightarrow> 'r) \<Rightarrow> 'c world \<Rightarrow> error + 'r" where
  "read_attr ref a w =
     (case ref of None \<Rightarrow> Inl AttributeError | Some h \<Rightarrow> Inr (a (store w h)))"

text \<open>
  A method of the session runs on the session object and the store; it returns a value
  or raises, and in both cases leaves the state as changed so far.
\<close>

type_synonym ('s, 'a) prog = "'s \<Rightarrow> (error + 'a) \<times> 's"

definition ret :: "'a \<Rightarrow> ('s, 'a) prog" where
  "ret x s = (Inr x, s)"

definition raise :: "error \<Rightarrow> ('s, 'a) prog" where
  "raise e s = (Inl e, s)"

definition seq :: "('s, 'a) prog \<Rightarrow> ('a \<Rightarrow> ('s, 'b) prog) \<Rightarrow> ('s, 'b) prog" where
  "seq m f s = (case m s of (Inl e, s') \<Rightarrow> (Inl e, s') | (Inr x, s') \<Rightarrow> f x s')"

definition lift :: "error + 'a \<Rightarrow> ('s, 'a) prog" where
  "lift r s = (r, s)"

definition getf :: "('o \<Rightarrow> 'a) \<Rightarrow> ('o \<times> 'w, 'a) prog" where
  "getf f s = (Inr (f (fst s)), s)"

definition assign :: "('o \<Rightarrow> 'o) \<Rightarrow> ('o \<times> 'w, unit) prog" where
  "assign f s = (Inr (), (f (fst s), snd s))"

definition meth ::
  "('o \<Rightarrow> nat option) \<Rightarrow> ('c \<Rightarrow> (error + 'r) \<times> 'c) \<Rightarrow> ('o \<times> 'c world, 'r) prog" where
  "meth field m s =
     (fst (call_method (field (fst s)) m (snd s)),
      (fst s, snd (call_method (field (fst s)) m (snd s))))"

definition attr :: "('o \<Rightarrow> nat option) \<Rightarrow> ('c \<Rightarrow> 'r) \<Rightarrow> ('o \<times> 'c world, 'r) prog" where
  "attr field a s = (read_attr (field (fst s)) a (snd s), s)"

definition construct :: "error + 'c \<Rightarrow> ('o \<times> 'c world, nat) prog" where
  "construct c s =
     (case c of
        Inl e \<Rightarrow> (Inl e, s)
      | Inr obj \<Rightarrow> (Inr (fst (new_object obj (snd s))), (fst s, snd (new_object obj (snd s)))))"

section \<open>The GSS-API backend \<^verbatim>\<open>_SSH_GSSAPI\<close>\<close>

text \<open>
  The entry points of python-gssapi that the class calls, as a parameter: each of them
  may raise. \<^verbatim>\<open>gssapi.Name\<close> returns a name object; \<^verbatim>\<open>gssapi.Context()\<close>,
  \<^verbatim>\<open>gssapi.InitContext\<close> and \<^verbatim>\<open>gssapi.AcceptContext\<close> construct a context object,
  which takes a fresh reference in the store.
\<close>

datatype gss_flag = C_PROT_READY_FLAG | C_INTEG_FLAG | C_MUTUAL_FLAG | C_DELEG_FLAG

datatype name_type = C_NT_HOSTBASED_SERVICE

datatype gss_name = GssName string name_type

record 'c gssapi_lib =
  Name :: "string \<Rightarrow> name_type \<Rightarrow> error + gss_name"
  Context :: "error + 'c"
  mech_from_string :: "string \<Rightarrow> error + string"
  InitContext :: "gss_name \<Rightarrow> string \<Rightarrow> gss_flag list \<Rightarrow> error + 'c"
  AcceptContext :: "error + 'c"
  step :: "'c \<Rightarrow> string option \<Rightarrow> (error + string option) \<times> 'c"
  established :: "'c \<Rightarrow> bool"
  get_mic :: "'c \<Rightarrow> string \<Rightarrow> (error + string) \<times> 'c"
  verify_mic :: "'c \<Rightarrow> string \<Rightarrow> string \<Rightarrow> (error + pyval) \<times> 'c"
  delegated_cred :: "'c \<Rightarrow> string option"

record gssapi_auth = gss_auth +
  gss_flags :: "gss_flag list"

definition gssapi_init :: "string \<Rightarrow> bool \<Rightarrow> gssapi_auth" where
  "gssapi_init am dc =
     gss_auth.extend (gss_auth_init am dc)
       (gssapi_auth.fields
          (if dc then [C_PROT_READY_FLAG, C_INTEG_FLAG, C_MUTUAL_FLAG, C_DELEG_FLAG]
           else [C_PROT_READY_FLAG, C_INTEG_FLAG, C_MUTUAL_FLAG]))"

text \<open>
  \<^verbatim>\<open>ssh_init_sec_context\<close>. The calls \<^verbatim>\<open>gssapi.Name(...)\<close> and
  \<^verbatim>\<open>ctx = gssapi.Context()\<close> come before the mechanism is looked at. The object
  \<open>ctx\<close> is local: \<^verbatim>\<open>ctx.flags = self._gss_flags\<close> sets an attribute of it, which
  \<^verbatim>\<open>req_flags=ctx.flags\<close> reads back (\<open>ctx_flags\<close>).
\<close>

definition gssapi_ssh_init_sec_context ::
  "'c gssapi_lib \<Rightarrow> pyasn1 \<Rightarrow> string \<Rightarrow> string option \<Rightarrow> string option \<Rightarrow> string option
     \<Rightarrow> (gssapi_auth \<times> 'c world, string option) prog" where
  "gssapi_ssh_init_sec_context lib asn target desired_mech usern recv_token =
     seq (assign (\<lambda>self. self\<lparr>username := usern\<rparr>)) (\<lambda>_.
     seq (assign (\<lambda>self. self\<lparr>gss_host := Some target\<rparr>)) (\<lambda>_.
     seq (getf (\<lambda>self. self)) (\<lambda>self.
     seq (lift (Name lib (''host@'' @ target) C_NT_HOSTBASED_SERVICE)) (\<lambda>targ_name.
     seq (construct (Context lib)) (\<lambda>ctx.
     seq (ret (gss_flags self)) (\<lambda>ctx_flags.
     seq (case desired_mech of
            None \<Rightarrow> lift (mech_from_string lib (krb5_mech self))
          | Some dm \<Rightarrow>
              seq (lift (decoder_decode asn dm)) (\<lambda>(mech, rest).
                if asn1_str mech \<noteq> krb5_mech self
                then raise (SSHException ''Unsupported mechanism OID.'')
                else lift (mech_from_string lib (krb5_mech self)))) (\<lambda>krb5.
     seq (case recv_token of
            None \<Rightarrow>
              seq (construct (InitContext lib targ_name krb5 ctx_flags)) (\<lambda>h.
              seq (assign (\<lambda>self. self\<lparr>gss_ctxt := Some h\<rparr>)) (\<lambda>_.
              meth gss_ctxt (\<lambda>c. step lib c None)))
          | Some t \<Rightarrow> meth gss_ctxt (\<lambda>c. step lib c (Some t))) (\<lambda>token.
     seq (attr gss_ctxt (established lib)) (\<lambda>est.
     seq (assign (\<lambda>self. self\<lparr>gss_ctxt_status := est\<rparr>)) (\<lambda>_.
     ret token))))))))))"

definition gssapi_ssh_get_mic ::
  "'c gssapi_lib \<Rightarrow> string \<Rightarrow> bool \<Rightarrow> (gssapi_auth \<times> 'c world, string) prog" where
  "gssapi_ssh_get_mic lib sid gss_kex =
     seq (assign (\<lambda>self. self\<lparr>session_id := Some sid\<rparr>)) (\<lambda>_.
     seq (getf (\<lambda>self. self)) (\<lambda>self.
     if \<not> gss_kex
     then seq (lift (ssh_build_mic sid (username self) (service self) (auth_method self)))
            (\<lambda>mic_field. meth gss_ctxt (\<lambda>c. get_mic lib c mic_field))
     else meth gss_srv_ctxt (\<lambda>c. get_mic lib c sid)))"

definition gssapi_ssh_accept_sec_context ::
  "'c gssapi_lib \<Rightarrow> string \<Rightarrow> string option \<Rightarrow> string option
     \<Rightarrow> (gssapi_auth \<times> 'c world, string option) prog" where
  "gssapi_ssh_accept_sec_context lib hostname recv_token usern =
     seq (assign (\<lambda>self. self\<lparr>gss_host := Some hostname\<rparr>)) (\<lambda>_.
     seq (assign (\<lambda>self. self\<lparr>username := usern\<rparr>)) (\<lambda>_.
     seq (getf gss_srv_ctxt) (\<lambda>r.
     seq (if r = None
          then seq (construct (AcceptContext lib))
                 (\<lambda>h. assign (\<lambda>self. self\<lparr>gss_srv_ctxt := Some h\<rparr>))
          else ret ()) (\<lambda>_.
     seq (meth gss_srv_ctxt (\<lambda>c. step lib c recv_token)) (\<lambda>token.
     seq (attr gss_srv_ctxt (established lib)) (\<lambda>est.
     seq (assign (\<lambda>self. self\<lparr>gss_srv_ctxt_status := est\<rparr>)) (\<lambda>_.
     ret token)))))))"

definition gssapi_ssh_check_mic ::
  "'c gssapi_lib \<Rightarrow> string \<Rightarrow> string \<Rightarrow> string option
     \<Rightarrow> (gssapi_auth \<times> 'c world, pyval) prog" where
  "gssapi_ssh_check_mic lib mic_token sid usern =
     seq (assign (\<lambda>self. self\<lparr>session_id := Some sid\<rparr>)) (\<lambda>_.
     seq (assign (\<lambda>self. self\<lparr>username := usern\<rparr>)) (\<lambda>_.
     seq (getf (\<lambda>self. self)) (\<lambda>self.
     if username self \<noteq> None
     then seq (lift (ssh_build_mic sid (username self) (service self) (auth_method self)))
            (\<lambda>mic_field. meth gss_srv_ctxt (\<lambda>c. verify_mic lib c mic_field mic_token))
     else meth gss_ctxt (\<lambda>c. verify_mic lib c sid mic_token))))"

definition gssapi_credentials_delegated ::
  "'c gssapi_lib \<Rightarrow> (gssapi_auth \<times> 'c world, bool) prog" where
  "gssapi_credentials_delegated lib =
     seq (attr gss_srv_ctxt (delegated_cred lib)) (\<lambda>cred.
     if cred \<noteq> None then ret True else ret False)"

definition gssapi_save_client_creds :: "string \<Rightarrow> (gssapi_auth \<times> 'c world, unit) prog" where
  "gssapi_save_client_creds client_token = raise NotImplementedError"

text \<open>A client that only calls \<^verbatim>\<open>ssh_init_sec_context\<close>, whatever each call returns.\<close>

fun gssapi_client_run ::
  "'c gssapi_lib \<Rightarrow> pyasn1 \<Rightarrow> (string \<times> string option \<times> string option \<times> string option) list
     \<Rightarrow> gssapi_auth \<times> 'c world \<Rightarrow> gssapi_auth \<times> 'c world" where
  "gssapi_client_run lib asn [] s = s"
| "gssapi_client_run lib asn ((target, desired_mech, usern, recv_token) # calls) s =
     gssapi_client_run lib asn calls
       (snd (gssapi_ssh_init_sec_context lib asn target desired_mech usern recv_token s))"

section \<open>The SSPI backend \<^verbatim>\<open>_SSH_SSPI\<close>\<close>

text \<open>
  The flag constants of \<^verbatim>\<open>sspicon\<close> and the entry points of \<^verbatim>\<open>sspi\<close> (pywin32)
  that the class calls, as parameters. \<^verbatim>\<open>authorize\<close> returns the error code and the
  buffer of the first token, \<^verbatim>\<open>token[0].Buffer\<close>.
\<close>

record sspicon =
  ISC_REQ_INTEGRITY :: int
  ISC_REQ_MUTUAL_AUTH :: int
  ISC_REQ_DELEGATE :: int

text \<open>The values that pywin32 gives the three constants.\<close>

definition pywin32_sspicon :: sspicon where
  "pywin32_sspicon =
     \<lparr>ISC_REQ_INTEGRITY = 65536, ISC_REQ_MUTUAL_AUTH = 2, ISC_REQ_DELEGATE = 1\<rparr>"

record 'c sspi_lib =
  ClientAuth :: "string \<Rightarrow> int \<Rightarrow> string \<Rightarrow> error + 'c"
  ServerAuth :: "string \<Rightarrow> string \<Rightarrow> error + 'c"
  authorize :: "'c \<Rightarrow> string option \<Rightarrow> (error + int \<times> string) \<times> 'c"
  sign :: "'c \<Rightarrow> string \<Rightarrow> (error + string) \<times> 'c"
  verify :: "'c \<Rightarrow> string \<Rightarrow> string \<Rightarrow> (error + pyval) \<times> 'c"

text \<open>The field \<^verbatim>\<open>_gss_flags\<close> of the SSPI class is an integer.\<close>

record sspi_auth = gss_auth +
  sspi_gss_flags :: int

definition sspi_init :: "sspicon \<Rightarrow> string \<Rightarrow> bool \<Rightarrow> sspi_auth" where
  "sspi_init con am dc =
     gss_auth.extend (gss_auth_init am dc)
       (sspi_auth.fields
          (if dc then ISC_REQ_INTEGRITY con OR ISC_REQ_MUTUAL_AUTH con OR ISC_REQ_DELEGATE con
           else ISC_REQ_INTEGRITY con OR ISC_REQ_MUTUAL_AUTH con))"

definition sspi_ssh_init_sec_context ::
  "'c sspi_lib \<Rightarrow> pyasn1 \<Rightarrow> string \<Rightarrow> string option \<Rightarrow> string option \<Rightarrow> string option
     \<Rightarrow> (sspi_auth \<times> 'c world, string option) prog" where
  "sspi_ssh_init_sec_context lib asn target desired_mech usern recv_token =
     seq (assign (\<lambda>self. self\<lparr>username := usern\<rparr>)) (\<lambda>_.
     seq (assign (\<lambda>self. self\<lparr>gss_host := Some target\<rparr>)) (\<lambda>_.
     seq (getf (\<lambda>self. self)) (\<lambda>self.
     seq (case desired_mech of
            Some dm \<Rightarrow>
              seq (lift (decoder_decode asn dm)) (\<lambda>(mech, rest).
                if asn1_str mech \<noteq> krb5_mech self
                then raise (SSHException ''Unsupported mechanism OID.'')
                else ret ())
          | None \<Rightarrow> ret ()) (\<lambda>_.
     seq (if recv_token = None
          then seq (construct
                      (ClientAuth lib ''Kerberos'' (sspi_gss_flags self) (''host/'' @ target)))
                 (\<lambda>h. assign (\<lambda>self. self\<lparr>gss_ctxt := Some h\<rparr>))
          else ret ()) (\<lambda>_.
     seq (meth gss_ctxt (\<lambda>c. authorize lib c recv_token)) (\<lambda>(err, buffer).
     if err = 0
     then seq (assign (\<lambda>self. self\<lparr>gss_ctxt_status := True\<rparr>)) (\<lambda>_. ret None)
     else ret (Some buffer)))))))"

definition sspi_ssh_get_mic ::
  "'c sspi_lib \<Rightarrow> string \<Rightarrow> bool \<Rightarrow> (sspi_auth \<times> 'c world, string) prog" where
  "sspi_ssh_get_mic lib sid gss_kex =
     seq (assign (\<lambda>self. self\<lparr>session_id := Some sid\<rparr>)) (\<lambda>_.
     seq (getf (\<lambda>self. self)) (\<lambda>self.
     if \<not> gss_kex
     then seq (lift (ssh_build_mic sid (username self) (service self) (auth_method self)))
            (\<lambda>mic_field. meth gss_ctxt (\<lambda>c. sign lib c mic_field))
     else meth gss_srv_ctxt (\<lambda>c. sign lib c sid)))"

definition sspi_ssh_accept_sec_context ::
  "'c sspi_lib \<Rightarrow> string \<Rightarrow> string option \<Rightarrow> string option
     \<Rightarrow> (sspi_auth \<times> 'c world, string option) prog" where
  "sspi_ssh_accept_sec_context lib hostname usern recv_token =
     seq (assign (\<lambda>self. self\<lparr>gss_host := Some hostname\<rparr>)) (\<lambda>_.
     seq (assign (\<lambda>self. self\<lparr>username := usern\<rparr>)) (\<lambda>_.
     seq (construct (ServerAuth lib ''Kerberos'' (''host/'' @ hostname))) (\<lambda>h.
     seq (assign (\<lambda>self. self\<lparr>gss_srv_ctxt := Some h\<rparr>)) (\<lambda>_.
     seq (meth gss_srv_ctxt (\<lambda>c. authorize lib c recv_token)) (\<lambda>(err, buffer).
     if err = 0
     then seq (assign (\<lambda>self. self\<lparr>gss_srv_ctxt_status := True\<rparr>)) (\<lambda>_. ret None)
     else ret (Some buffer))))))"

definition sspi_ssh_check_mic ::
  "'c sspi_lib \<Rightarrow> string \<Rightarrow> string \<Rightarrow> string option
     \<Rightarrow> (sspi_auth \<times> 'c world, pyval) prog" where
  "sspi_ssh_check_mic lib mic_token sid usern =
     seq (assign (\<lambda>self. self\<lparr>session_id := Some sid\<rparr>)) (\<lambda>_.
     seq (assign (\<lambda>self. self\<lparr>username := usern\<rparr>)) (\<lambda>_.
     seq (getf (\<lambda>self. self)) (\<lambda>self.
     seq (ret (PyInt 1)) (\<lambda>mic_status.
     seq (if usern \<noteq> None
          then seq (lift (ssh_build_mic sid (username self) (service self) (auth_method self)))
                 (\<lambda>mic_field. meth gss_srv_ctxt (\<lambda>c. verify lib c mic_field mic_token))
          else meth gss_ctxt (\<lambda>c. verify lib c sid mic_token)) (\<lambda>mic_status.
     seq (ret (PyInt 0)) (\<lambda>mic_status.
     ret mic_status))))))"

definition sspi_credentials_delegated :: "sspicon \<Rightarrow> sspi_auth \<Rightarrow> pyval" where
  "sspi_credentials_delegated con self =
     py_and (PyInt (sspi_gss_flags self AND ISC_REQ_DELEGATE con))
       (py_or (PyBool (gss_srv_ctxt_status self)) (PyInt (sspi_gss_flags self)))"

definition sspi_save_client_creds :: "string \<Rightarrow> (sspi_auth \<times> 'c world, unit) prog" where
  "sspi_save_client_creds client_token = raise NotImplementedError"

fun sspi_client_run ::
  "'c sspi_lib \<Rightarrow> pyasn1 \<Rightarrow> (string \<times> string option \<times> string option \<times> string option) list
     \<Rightarrow> sspi_auth \<times> 'c world \<Rightarrow> sspi_auth \<times> 'c world" where
  "sspi_client_run lib asn [] s = s"
| "sspi_client_run lib asn ((target, desired_mech, usern, recv_token) # calls) s =
     sspi_client_run lib asn calls
       (snd (sspi_ssh_init_sec_context lib asn target desired_mech usern recv_token s))"

section \<open>Small library instances for running the methods\<close>

text \<open>
  A context object that counts the calls made on it: it is established after two
  steps, signs a message by prefixing it, and accepts a signature that matches.
\<close>

definition demo_gssapi :: "nat gssapi_lib" where
  "demo_gssapi =
     \<lparr>Name = (\<lambda>s t. Inr (GssName s t)),
      Context = Inr 0,
      mech_from_string = (\<lambda>s. Inr s),
      InitContext = (\<lambda>n m f. Inr 0),
      AcceptContext = Inr 0,
      step = (\<lambda>c t. (Inr (if c = 0 then Some ''token'' else None), Suc c)),
      established = (\<lambda>c. 2 \<le> c),
      get_mic = (\<lambda>c m. (Inr (''mic:'' @ m), c)),
      verify_mic = (\<lambda>c m t. (if t = ''mic:'' @ m then Inr (PyInt 0) else Inl (BackendError 1), c)),
      delegated_cred = (\<lambda>c. if 2 \<le> c then Some ''cred'' else None)\<rparr>"

text \<open>
  The SSPI instance reports a signature that does not match through the value that
  \<^verbatim>\<open>verify\<close> returns.
\<close>

definition demo_sspi :: "nat sspi_lib" where
  "demo_sspi =
     \<lparr>ClientAuth = (\<lambda>p f t. Inr 0),
      ServerAuth = (\<lambda>p t. Inr 0),
      authorize = (\<lambda>c t. (Inr (if c = 0 then 590610 else 0, ''token''), Suc c)),
      sign = (\<lambda>c m. (Inr (''mic:'' @ m), c)),
      verify = (\<lambda>c m t. (Inr (if t = ''mic:'' @ m then PyNone else PyInt 1), c))\<rparr>"

definition world0 :: "nat world" where
  "world0 = \<lparr>store = (\<lambda>_. 0), next_ref = 0\<rparr>"

text \<open>
  The DER encoding of the Kerberos V5 object identifier \<open>1.2.840.113554.1.2.2\<close>:
  \<open>06 09 2a 86 48 86 f7 12 01 02 02\<close>.
\<close>

definition krb5_DER :: string where
  "krb5_DER = [CHR 0x06, CHR 0x09, CHR 0x2A, CHR 0x86, CHR 0x48, CHR 0x86, CHR 0xF7, CHR 0x12,
      CHR 0x01, CHR 0x02, CHR 0x02]"

section \<open>Basic facts\<close>

lemma bind_Inr: "bind (Inr x) f = f x"
  by (simp add: bind_def)

lemma bind_Inl: "bind (Inl e) f = Inl e"
  by (simp add: bind_def)

lemma char_of_int: "char_of (int n) = char_of n"
  by (simp add: char_of_def bit_simps)

lemma char_of_int_div: "char_of (int n div numeral k) = char_of (n div numeral k)"
proof -
  have "int n div numeral k = int (n div numeral k)" by (simp add: zdiv_int)
  then show ?thesis by (simp only: char_of_int)
qed

lemma char_of_50: "char_of (50 :: nat) = CHR 0x32"
  by code_simp

lemma make_uint32_uint32: "n < 2 ^ 32 \<Longrightarrow> make_uint32 (int n) = Inr (uint32 n)"
  by (simp add: make_uint32_def struct_pack_I_def uint32_def char_of_int_div char_of_int)

lemma make_uint32_too_big: "2 ^ 32 \<le> n \<Longrightarrow> make_uint32 (int n) = Inl StructError"
  by (simp add: make_uint32_def struct_pack_I_def)

lemma length_uint32: "length (uint32 n) = 4"
  by (simp add: uint32_def)

lemma str_encode_ascii: "is_ascii s \<Longrightarrow> str_encode s = Inr s"
  by (simp add: str_encode_def is_ascii_def)

lemma py_chr_request: "py_chr MSG_USERAUTH_REQUEST = Inr [char_of (50 :: nat)]"
  unfolding py_chr_def MSG_USERAUTH_REQUEST_def by code_simp

lemmas prog_defs = ret_def raise_def seq_def lift_def getf_def assign_def meth_def attr_def
  construct_def call_method_def read_attr_def new_object_def

lemmas byte_simps = char_of_def bit_Suc_0_iff

section \<open>The MIC payload\<close>

lemma ssh_build_mic_eq:
  assumes "length sid < 2 ^ 32" and "length u < 2 ^ 32"
    and "length svc < 2 ^ 32" and "length am < 2 ^ 32"
    and "is_ascii u" and "is_ascii svc" and "is_ascii am"
  shows "ssh_build_mic sid (Some u) svc am = Inr (rfc4462_mic sid u svc am)"
  using assms
  by (simp add: ssh_build_mic_def rfc4462_mic_def make_uint32_uint32 str_encode_ascii
      py_chr_request bind_Inr)

lemma ssh_build_mic_no_username: "ssh_build_mic sid None svc am \<noteq> Inr out"
  by (simp add: ssh_build_mic_def bind_def py_chr_request split: sum.splits)

text \<open>
  Claim C1, as the code has it. For a session id, user name, service and authentication
  method shorter than \<open>2 ^ 32\<close> bytes, the last three of them ASCII, \<^verbatim>\<open>_ssh_build_mic\<close>
  returns exactly the RFC 4462 payload; its length is
  \<open>4 + len(session_id) + 1 + 4 + len(username) + 4 + len(service) + 4 + len(auth_method)\<close>
  and the byte at offset \<open>4 + len(session_id)\<close> is 50.
\<close>

theorem ssh_build_mic_layout:
  assumes "length sid < 2 ^ 32" and "length u < 2 ^ 32"
    and "length svc < 2 ^ 32" and "length am < 2 ^ 32"
    and "is_ascii u" and "is_ascii svc" and "is_ascii am"
  shows "ssh_build_mic sid (Some u) svc am = Inr (rfc4462_mic sid u svc am)
       \<and> length (rfc4462_mic sid u svc am)
           = 4 + length sid + 1 + 4 + length u + 4 + length svc + 4 + length am
       \<and> rfc4462_mic sid u svc am ! (4 + length sid) = char_of (50 :: nat)"
proof -
  have "ssh_build_mic sid (Some u) svc am = Inr (rfc4462_mic sid u svc am)"
    using assms by (rule ssh_build_mic_eq)
  moreover have "length (rfc4462_mic sid u svc am)
           = 4 + length sid + 1 + 4 + length u + 4 + length svc + 4 + length am"
    by (simp add: rfc4462_mic_def length_uint32)
  moreover have "rfc4462_mic sid u svc am ! (4 + length sid) = char_of (50 :: nat)"
    by (simp add: rfc4462_mic_def nth_append length_uint32)
  ultimately show ?thesis by blast
qed

text \<open>
  The end-to-end scenario of the specification: 32 zero bytes, \<open>alice\<close>,
  \<open>ssh-connection\<close>, \<open>gssapi-with-mic\<close>. The payload has 83 bytes
  (\<open>gssapi-with-mic\<close> has 15 characters), and byte 36 is \<open>0x32\<close>.
\<close>

theorem ssh_build_mic_layout_witness:
  "ssh_build_mic (replicate 32 (char_of (0 :: nat))) (Some ''alice'') ''ssh-connection''
        ''gssapi-with-mic''
     = Inr (rfc4462_mic (replicate 32 (char_of (0 :: nat))) ''alice'' ''ssh-connection''
        ''gssapi-with-mic'')
   \<and> length (rfc4462_mic (replicate 32 (char_of (0 :: nat))) ''alice'' ''ssh-connection''
        ''gssapi-with-mic'') = 83
   \<and> rfc4462_mic (replicate 32 (char_of (0 :: nat))) ''alice'' ''ssh-connection''
        ''gssapi-with-mic'' ! 36 = CHR 0x32"
  using ssh_build_mic_layout [of "replicate 32 (char_of (0 :: nat))" "''alice''"
      "''ssh-connection''" "''gssapi-with-mic''"]
  by (simp add: is_ascii_def char_of_50)

text \<open>Claim C1 as stated fails on its own example: the output is not 84 bytes long.\<close>

theorem ssh_build_mic_example_not_84:
  "map_sum id length
     (ssh_build_mic (replicate 32 (char_of (0 :: nat))) (Some ''alice'') ''ssh-connection''
        ''gssapi-with-mic'') = Inr 83
   \<and> map_sum id length
     (ssh_build_mic (replicate 32 (char_of (0 :: nat))) (Some ''alice'') ''ssh-connection''
        ''gssapi-with-mic'') \<noteq> Inr 84"
  by code_simp

section \<open>The service setter\<close>

lemma find_from_lower: "find_from sub s j = - 1 \<or> int j \<le> find_from sub s j"
  by (induction s arbitrary: j) (auto, fastforce)

lemma find_from_here: "find_from sub s i = int i \<longleftrightarrow> take (length sub) s = sub"
proof (cases s)
  case Nil
  then show ?thesis by auto
next
  case (Cons c cs)
  have "find_from sub cs (Suc i) \<noteq> int i"
    using find_from_lower [of sub cs "Suc i"] by auto
  with Cons show ?thesis by auto
qed

lemma py_find_prefix: "py_find s sub = 0 \<longleftrightarrow> take (length sub) s = sub"
  using find_from_here [of sub s 0] by (simp add: py_find_def)

text \<open>
  What \<^verbatim>\<open>set_service\<close> computes: \<^verbatim>\<open>find\<close> returns 0, which is falsy, exactly when
  the name begins with \<open>ssh-\<close>, so such a name is dropped and every other name is stored.
\<close>

lemma set_service_code:
  "set_service name self = (if take 4 name = ''ssh-'' then self else self\<lparr>service := name\<rparr>)"
  using py_find_prefix [of name "''ssh-''"] by (simp add: set_service_def eval_nat_numeral)

lemmas init_defs = gss_auth_init_def gssapi_init_def sspi_init_def gss_auth.defs
  gssapi_auth.defs sspi_auth.defs

text \<open>
  Claim C3 says that \<open>set_service("ssh-foo")\<close> updates the service name and that
  \<open>set_service("not-ssh-prefixed")\<close> leaves it unchanged. The code does the opposite on
  both inputs: on a fresh session the first call leaves \<open>ssh-connection\<close> in place and the
  second stores \<open>not-ssh-prefixed\<close>.
\<close>

theorem set_service_inverted:
  "service (set_service ''ssh-foo'' (gss_auth_init ''gssapi-with-mic'' True)) = ''ssh-connection''
   \<and> service (set_service ''not-ssh-prefixed'' (gss_auth_init ''gssapi-with-mic'' True))
       = ''not-ssh-prefixed''"
  by (simp add: set_service_def py_find_def gss_auth_init_def)

section \<open>Saving client credentials\<close>

text \<open>
  Claim C8. In both backends \<^verbatim>\<open>save_client_creds\<close> raises \<^verbatim>\<open>NotImplementedError\<close> for
  every token, the empty one included, and leaves the session and the library objects as
  they were.
\<close>

theorem save_client_creds_not_implemented:
  "gssapi_save_client_creds token s = (Inl NotImplementedError, s)
   \<and> sspi_save_client_creds token' s' = (Inl NotImplementedError, s')
   \<and> gssapi_save_client_creds [] s = (Inl NotImplementedError, s)
   \<and> sspi_save_client_creds [] s' = (Inl NotImplementedError, s')"
  by (simp add: gssapi_save_client_creds_def sspi_save_client_creds_def raise_def)

section \<open>The MIC check of the SSPI backend\<close>

text \<open>
  Claim C2. In the SSPI backend, whenever the call of \<^verbatim>\<open>verify\<close> returns (with whatever
  value \<open>v\<close>), \<^verbatim>\<open>ssh_check_mic\<close> returns 0: in the server branch (user name given), in
  the key-exchange branch (no user name), and 0 is the only value it ever returns.
\<close>

theorem sspi_ssh_check_mic_overwrites:
  "(ssh_build_mic sid (Some u) (service self) (auth_method self) = Inr f
      \<and> gss_srv_ctxt self = Some h \<and> fst (verify lib (store w h) f tok) = Inr v
     \<longrightarrow> fst (sspi_ssh_check_mic lib tok sid (Some u) (self, w)) = Inr (PyInt 0))
   \<and> (gss_ctxt self = Some h' \<and> fst (verify lib (store w h') sid tok) = Inr v'
     \<longrightarrow> fst (sspi_ssh_check_mic lib tok sid None (self, w)) = Inr (PyInt 0))
   \<and> (fst (sspi_ssh_check_mic lib tok sid usern (self, w)) = Inr r \<longrightarrow> r = PyInt 0)"
  by (auto simp: sspi_ssh_check_mic_def prog_defs
      split: sum.splits option.splits prod.splits if_splits)

text \<open>
  A run with a library whose \<^verbatim>\<open>verify\<close> returns 1 for a signature that does not
  match: the check still returns 0 in both branches.
\<close>

theorem sspi_ssh_check_mic_overwrites_witness:
  "ssh_build_mic ''sid'' (Some ''alice'') ''ssh-connection'' ''gssapi-with-mic''
     = Inr (rfc4462_mic ''sid'' ''alice'' ''ssh-connection'' ''gssapi-with-mic'')
   \<and> fst (verify demo_sspi 0
          (rfc4462_mic ''sid'' ''alice'' ''ssh-connection'' ''gssapi-with-mic'') ''bad'')
       = Inr (PyInt 1)
   \<and> fst (sspi_ssh_check_mic demo_sspi ''bad'' ''sid'' (Some ''alice'')
          ((sspi_init pywin32_sspicon ''gssapi-with-mic'' True)
             \<lparr>gss_ctxt := Some 0, gss_srv_ctxt := Some 0\<rparr>, world0)) = Inr (PyInt 0)
   \<and> fst (verify demo_sspi 0 ''sid'' ''bad'') = Inr (PyInt 1)
   \<and> fst (sspi_ssh_check_mic demo_sspi ''bad'' ''sid'' None
          ((sspi_init pywin32_sspicon ''gssapi-with-mic'' True)
             \<lparr>gss_ctxt := Some 0, gss_srv_ctxt := Some 0\<rparr>, world0)) = Inr (PyInt 0)"
proof -
  have b: "ssh_build_mic ''sid'' (Some ''alice'') ''ssh-connection'' ''gssapi-with-mic''
     = Inr (rfc4462_mic ''sid'' ''alice'' ''ssh-connection'' ''gssapi-with-mic'')"
    by (rule ssh_build_mic_eq) (simp_all add: is_ascii_def)
  have v1: "fst (verify demo_sspi 0
          (rfc4462_mic ''sid'' ''alice'' ''ssh-connection'' ''gssapi-with-mic'') ''bad'')
       = Inr (PyInt 1)"
    by (simp add: demo_sspi_def rfc4462_mic_def uint32_def)
  have v2: "fst (verify demo_sspi 0 ''sid'' ''bad'') = Inr (PyInt 1)"
    by (simp add: demo_sspi_def)
  show ?thesis
    using b v1 v2
      sspi_ssh_check_mic_overwrites [of "''sid''" "''alice''"
        "(sspi_init pywin32_sspicon ''gssapi-with-mic'' True)
           \<lparr>gss_ctxt := Some 0, gss_srv_ctxt := Some 0\<rparr>"
        "rfc4462_mic ''sid'' ''alice'' ''ssh-connection'' ''gssapi-with-mic''"
        0 demo_sspi world0 "''bad''" "PyInt 1" 0 "PyInt 1" None "PyInt 0"]
    by (simp add: init_defs world0_def)
qed

section \<open>The delegation query\<close>

text \<open>
  Claim C4. In the GSS-API backend \<^verbatim>\<open>credentials_delegated\<close> returns \<open>True\<close> if and
  only if there is a server context and it holds a delegated credential. In the SSPI
  backend, with flag constants such that \<open>ISC_REQ_DELEGATE\<close> is a non-zero bit outside
  the other two, and with the flags as the constructor set them, the result is truthy if
  and only if delegation was requested at construction, whatever the status of the
  server context.
\<close>

theorem credentials_delegated_semantics:
  "(fst (gssapi_credentials_delegated lib (self, w)) = Inr True
      \<longleftrightarrow> (\<exists>h. gss_srv_ctxt self = Some h \<and> delegated_cred lib (store w h) \<noteq> None))
   \<and> (ISC_REQ_DELEGATE con \<noteq> 0
       \<and> (ISC_REQ_INTEGRITY con OR ISC_REQ_MUTUAL_AUTH con) AND ISC_REQ_DELEGATE con = 0
       \<and> sspi_gss_flags sself =
           (if gss_deleg_creds sself
            then ISC_REQ_INTEGRITY con OR ISC_REQ_MUTUAL_AUTH con OR ISC_REQ_DELEGATE con
            else ISC_REQ_INTEGRITY con OR ISC_REQ_MUTUAL_AUTH con)
      \<longrightarrow> (truthy (sspi_credentials_delegated con sself) \<longleftrightarrow> gss_deleg_creds sself))"
proof -
  have g: "fst (gssapi_credentials_delegated lib (self, w)) = Inr True
      \<longleftrightarrow> (\<exists>h. gss_srv_ctxt self = Some h \<and> delegated_cred lib (store w h) \<noteq> None)"
    by (auto simp: gssapi_credentials_delegated_def prog_defs split: option.splits)
  have s: "truthy (sspi_credentials_delegated con sself) \<longleftrightarrow> gss_deleg_creds sself"
    if d: "ISC_REQ_DELEGATE con \<noteq> 0"
      and z: "(ISC_REQ_INTEGRITY con OR ISC_REQ_MUTUAL_AUTH con) AND ISC_REQ_DELEGATE con = 0"
      and f: "sspi_gss_flags sself =
           (if gss_deleg_creds sself
            then ISC_REQ_INTEGRITY con OR ISC_REQ_MUTUAL_AUTH con OR ISC_REQ_DELEGATE con
            else ISC_REQ_INTEGRITY con OR ISC_REQ_MUTUAL_AUTH con)"
  proof (cases "gss_deleg_creds sself")
    case True
    have a: "(ISC_REQ_INTEGRITY con OR ISC_REQ_MUTUAL_AUTH con OR ISC_REQ_DELEGATE con)
               AND ISC_REQ_DELEGATE con = ISC_REQ_DELEGATE con"
      by (simp add: bit_eq_iff bit_simps) blast
    have b: "ISC_REQ_INTEGRITY con OR ISC_REQ_MUTUAL_AUTH con OR ISC_REQ_DELEGATE con \<noteq> 0"
      using d by (simp add: or_eq_0_iff)
    from True f a b d show ?thesis
      by (simp add: sspi_credentials_delegated_def py_and_def py_or_def)
  next
    case False
    with f z show ?thesis
      by (simp add: sspi_credentials_delegated_def py_and_def py_or_def)
  qed
  from g s show ?thesis by blast
qed

text \<open>
  With the constants of pywin32: a session built with delegation requested answers
  truthy before any context exists, and one built without answers falsy even when the
  server context is established. The GSS-API session answers \<open>True\<close> on a server context
  that holds a credential.
\<close>

theorem credentials_delegated_semantics_witness:
  "truthy (sspi_credentials_delegated pywin32_sspicon
       (sspi_init pywin32_sspicon ''gssapi-with-mic'' True))
   \<and> \<not> truthy (sspi_credentials_delegated pywin32_sspicon
       ((sspi_init pywin32_sspicon ''gssapi-with-mic'' False)\<lparr>gss_srv_ctxt_status := True\<rparr>))
   \<and> fst (gssapi_credentials_delegated demo_gssapi
       ((gssapi_init ''gssapi-with-mic'' True)\<lparr>gss_srv_ctxt := Some 0\<rparr>,
        world0\<lparr>store := (\<lambda>_. 2)\<rparr>)) = Inr True"
  using credentials_delegated_semantics [of demo_gssapi
      "(gssapi_init ''gssapi-with-mic'' True)\<lparr>gss_srv_ctxt := Some 0\<rparr>"
      "world0\<lparr>store := (\<lambda>_. 2)\<rparr>" pywin32_sspicon
      "sspi_init pywin32_sspicon ''gssapi-with-mic'' True"]
    credentials_delegated_semantics [of demo_gssapi
      "(gssapi_init ''gssapi-with-mic'' True)\<lparr>gss_srv_ctxt := Some 0\<rparr>"
      "world0\<lparr>store := (\<lambda>_. 2)\<rparr>" pywin32_sspicon
      "(sspi_init pywin32_sspicon ''gssapi-with-mic'' False)\<lparr>gss_srv_ctxt_status := True\<rparr>"]
  by (simp add: init_defs pywin32_sspicon_def demo_gssapi_def world0_def)

section \<open>Accepting a context\<close>

lemma gssapi_accept_reuses_context:
  "gss_srv_ctxt self = Some h \<Longrightarrow>
     gss_srv_ctxt (fst (snd (gssapi_ssh_accept_sec_context lib hostname recv_token usern (self, w))))
       = Some h
     \<and> next_ref (snd (snd (gssapi_ssh_accept_sec_context lib hostname recv_token usern (self, w))))
       = next_ref w"
  by (auto simp: gssapi_ssh_accept_sec_context_def prog_defs split: sum.splits prod.splits)

lemma gssapi_accept_creates_first:
  "gss_srv_ctxt self = None \<Longrightarrow> AcceptContext lib = Inr c \<Longrightarrow>
     gss_srv_ctxt (fst (snd (gssapi_ssh_accept_sec_context lib hostname recv_token usern (self, w))))
       = Some (next_ref w)
     \<and> next_ref (snd (snd (gssapi_ssh_accept_sec_context lib hostname recv_token usern (self, w))))
       = Suc (next_ref w)"
  by (auto simp: gssapi_ssh_accept_sec_context_def prog_defs split: sum.splits prod.splits)

text \<open>
  The SSPI backend calls \<^verbatim>\<open>sspi.ServerAuth\<close> on every call: the stored reference is
  always the one of a context created by this call.
\<close>

lemma sspi_accept_always_creates:
  "ServerAuth lib ''Kerberos'' (''host/'' @ hostname) = Inr c \<Longrightarrow>
     gss_srv_ctxt (fst (snd (sspi_ssh_accept_sec_context lib hostname usern recv_token (self, w))))
       = Some (next_ref w)
     \<and> next_ref (snd (snd (sspi_ssh_accept_sec_context lib hostname usern recv_token (self, w))))
       = Suc (next_ref w)"
  by (auto simp: sspi_ssh_accept_sec_context_def prog_defs split: sum.splits prod.splits)

text \<open>
  Claim C5 says that in both backends only the first \<open>accept_context\<close> call creates the
  server context and later calls step the stored one. Two calls in a row on a fresh
  session: the GSS-API backend keeps the context of the first call (reference 0); the
  SSPI backend replaces it with a second, newly created one (reference 1).
\<close>

theorem accept_second_call:
  "gss_srv_ctxt (fst (snd (gssapi_ssh_accept_sec_context demo_gssapi ''host'' (Some ''t1'')
      (Some ''alice'') (gssapi_init ''gssapi-with-mic'' True, world0)))) = Some 0
   \<and> gss_srv_ctxt (fst (snd (gssapi_ssh_accept_sec_context demo_gssapi ''host'' (Some ''t2'')
      (Some ''alice'')
      (snd (gssapi_ssh_accept_sec_context demo_gssapi ''host'' (Some ''t1'') (Some ''alice'')
         (gssapi_init ''gssapi-with-mic'' True, world0)))))) = Some 0
   \<and> gss_srv_ctxt (fst (snd (sspi_ssh_accept_sec_context demo_sspi ''host'' (Some ''alice'')
      (Some ''t1'') (sspi_init pywin32_sspicon ''gssapi-with-mic'' True, world0)))) = Some 0
   \<and> gss_srv_ctxt (fst (snd (sspi_ssh_accept_sec_context demo_sspi ''host'' (Some ''alice'')
      (Some ''t2'')
      (snd (sspi_ssh_accept_sec_context demo_sspi ''host'' (Some ''alice'') (Some ''t1'')
         (sspi_init pywin32_sspicon ''gssapi-with-mic'' True, world0)))))) = Some 1"
  by (simp add: gssapi_ssh_accept_sec_context_def sspi_ssh_accept_sec_context_def prog_defs
      demo_gssapi_def demo_sspi_def world0_def init_defs)

section \<open>Dotted decimal strings and object identifiers\<close>


lemma digit_char: "d < 10 \<Longrightarrow> (of_char (char_of (48 + d :: nat)) :: nat) = 48 + d"
  by simp

lemma str_of_nat_digits: "list_all is_digit (str_of_nat n) \<and> str_of_nat n \<noteq> []"
proof (induction n rule: str_of_nat.induct)
  case (1 n)
  show ?case
  proof (cases "n < 10")
    case True
    then show ?thesis by (subst (1 2) str_of_nat.simps) (simp add: is_digit_def)
  next
    case False
    have "n mod 10 < 10" by simp
    then have "is_digit (char_of (48 + n mod 10))"
      unfolding is_digit_def by (simp only: digit_char) simp
    with False 1 show ?thesis by (subst (1 2) str_of_nat.simps) simp
  qed
qed

lemma dec_value_str_of_nat: "dec_value (str_of_nat n) = n"
proof (induction n rule: str_of_nat.induct)
  case (1 n)
  show ?case
  proof (cases "n < 10")
    case True
    then show ?thesis by (subst str_of_nat.simps) (simp add: dec_value_def)
  next
    case False
    have m: "n mod 10 < 10" by simp
    have "dec_value (str_of_nat n) = dec_value (str_of_nat (n div 10)) * 10 + n mod 10"
      using False m by (subst str_of_nat.simps) (simp add: dec_value_def)
    with False 1 show ?thesis by simp
  qed
qed

lemma nat_of_str_str_of_nat: "nat_of_str (str_of_nat n) = Inr n"
  using str_of_nat_digits [of n] dec_value_str_of_nat [of n]
  by (simp add: nat_of_str_def)

lemma str_of_nat_no_dot: "CHR ''.'' \<notin> set (str_of_nat n)"
proof
  assume "CHR ''.'' \<in> set (str_of_nat n)"
  moreover have "\<forall>c \<in> set (str_of_nat n). is_digit c"
    using str_of_nat_digits [of n] by (simp add: list_all_iff)
  ultimately have "is_digit CHR ''.''" by blast
  then show False by (simp add: is_digit_def)
qed

lemma split_dots_append:
  "CHR ''.'' \<notin> set x \<Longrightarrow> split_dots acc (x @ rest) = split_dots (rev x @ acc) rest"
  by (induction x arbitrary: acc) auto

lemma split_dots_join:
  "xs \<noteq> [] \<Longrightarrow> \<forall>x \<in> set xs. CHR ''.'' \<notin> set x \<Longrightarrow>
     split_dots acc (join_dots xs) = (rev acc @ hd xs) # tl xs"
proof (induction xs arbitrary: acc rule: join_dots.induct)
  case 1
  then show ?case by simp
next
  case (2 x)
  then have "split_dots acc (x @ []) = split_dots (rev x @ acc) []"
    by (intro split_dots_append) simp
  then show ?case by simp
next
  case (3 x y ys)
  have "split_dots acc (x @ ''.'' @ join_dots (y # ys))
          = split_dots (rev x @ acc) (''.'' @ join_dots (y # ys))"
    using 3 by (intro split_dots_append) simp
  also have "\<dots> = (rev acc @ x) # split_dots [] (join_dots (y # ys))" by simp
  also have "split_dots [] (join_dots (y # ys)) = y # ys"
    using 3 by simp
  finally show ?case by simp
qed

lemma sequence_sum_arcs: "sequence_sum (map (nat_of_str \<circ> str_of_nat) arcs) = Inr arcs"
  by (induction arcs) (simp_all add: nat_of_str_str_of_nat bind_def)

lemma filter_nonempty_arcs:
  "filter (\<lambda>x. x \<noteq> []) (map str_of_nat arcs) = map str_of_nat arcs"
  using str_of_nat_digits by (induction arcs) auto

lemma oid_of_str_asn1_str:
  assumes "arcs \<noteq> []"
  shows "oid_of_str (asn1_str (ObjectIdentifier arcs)) = Inr (ObjectIdentifier arcs)"
proof -
  have "split_dots [] (join_dots (map str_of_nat arcs)) = map str_of_nat arcs"
    using assms split_dots_join [of "map str_of_nat arcs" "[]"] str_of_nat_no_dot
    by (cases arcs) auto
  then show ?thesis
    by (simp add: oid_of_str_def filter_nonempty_arcs sequence_sum_arcs bind_def)
qed

lemma oid_of_str_krb5:
  "oid_of_str ''1.2.840.113554.1.2.2'' = Inr (ObjectIdentifier [1, 2, 840, 113554, 1, 2, 2])"
  by (simp add: oid_of_str_def nat_of_str_def dec_value_def is_digit_def bind_def)

lemma asn1_str_krb5:
  "asn1_str (ObjectIdentifier [1, 2, 840, 113554, 1, 2, 2]) = ''1.2.840.113554.1.2.2''"
  by (simp add: byte_simps str_of_nat.simps)

lemma oid_str_is_krb5:
  "asn1_str (ObjectIdentifier arcs) = ''1.2.840.113554.1.2.2''
     \<longleftrightarrow> arcs = [1, 2, 840, 113554, 1, 2, 2]"
proof
  assume a: "asn1_str (ObjectIdentifier arcs) = ''1.2.840.113554.1.2.2''"
  then have "arcs \<noteq> []" by auto
  then have "oid_of_str (asn1_str (ObjectIdentifier arcs)) = Inr (ObjectIdentifier arcs)"
    by (rule oid_of_str_asn1_str)
  with a oid_of_str_krb5 show "arcs = [1, 2, 840, 113554, 1, 2, 2]" by simp
next
  assume "arcs = [1, 2, 840, 113554, 1, 2, 2]"
  then show "asn1_str (ObjectIdentifier arcs) = ''1.2.840.113554.1.2.2''"
    by (simp only: asn1_str_krb5)
qed

section \<open>Checking a mechanism\<close>

lemma der_decode_krb5:
  "der_decode [CHR 0x06, CHR 0x09, CHR 0x2A, CHR 0x86, CHR 0x48, CHR 0x86, CHR 0xF7, CHR 0x12,
      CHR 0x01, CHR 0x02, CHR 0x02] = Inr (ObjectIdentifier [1, 2, 840, 113554, 1, 2, 2], [])"
  by (simp add: der_decode_def der_oid_def bind_def)

lemma der_decode_spnego:
  "der_decode [CHR 0x06, CHR 0x06, CHR 0x2B, CHR 0x06, CHR 0x01, CHR 0x05, CHR 0x05, CHR 0x02]
     = Inr (ObjectIdentifier [1, 3, 6, 1, 5, 5, 2], [])"
  by (simp add: der_decode_def der_oid_def bind_def)

lemma der_decode_octet_string:
  "der_decode (CHR 0x04 # CHR 0x14 # ''1.2.840.113554.1.2.2'')
     = Inr (OctetString ''1.2.840.113554.1.2.2'', [])"
  by (simp add: der_decode_def bind_def)

lemma krb5_mech_init: "krb5_mech (gss_auth_init am dc) = ''1.2.840.113554.1.2.2''"
  by (simp add: gss_auth_init_def)

text \<open>
  What \<^verbatim>\<open>ssh_check_mech\<close> computes, for any decoder: \<open>True\<close> if and only if the input
  decodes to a value whose string form is \<open>1.2.840.113554.1.2.2\<close>, whatever the type of
  that value. On an input that decodes to an object identifier it returns \<open>True\<close> for
  the Kerberos V5 arcs and \<open>False\<close> for every other identifier. When the input does not
  decode, the error of the decoder is raised.
\<close>

lemma ssh_check_mech_code:
  "(ssh_check_mech asn self input = Inr True
      \<longleftrightarrow> (\<exists>v rest. decoder_decode asn input = Inr (v, rest) \<and> asn1_str v = krb5_mech self))
   \<and> (decoder_decode asn input = Inr (ObjectIdentifier arcs, rest')
        \<and> krb5_mech self = ''1.2.840.113554.1.2.2''
      \<longrightarrow> ssh_check_mech asn self input = Inr (arcs = [1, 2, 840, 113554, 1, 2, 2]))
   \<and> (decoder_decode asn input = Inl e \<longrightarrow> ssh_check_mech asn self input = Inl e)"
proof -
  have a: "ssh_check_mech asn self input = Inr True
      \<longleftrightarrow> (\<exists>v rest. decoder_decode asn input = Inr (v, rest) \<and> asn1_str v = krb5_mech self)"
    by (auto simp: ssh_check_mech_def bind_def split: sum.splits)
  have b: "ssh_check_mech asn self input = Inr (arcs = [1, 2, 840, 113554, 1, 2, 2])"
    if "decoder_decode asn input = Inr (ObjectIdentifier arcs, rest')"
      and "krb5_mech self = ''1.2.840.113554.1.2.2''"
    using that oid_str_is_krb5 [of arcs]
    by (simp add: ssh_check_mech_def bind_def del: asn1_str.simps)
  have c: "ssh_check_mech asn self input = Inl e" if "decoder_decode asn input = Inl e"
    using that by (simp add: ssh_check_mech_def bind_def)
  from a b c show ?thesis by blast
qed

text \<open>
  With the DER instance: the Kerberos V5 identifier is accepted, the SPNEGO identifier
  \<open>1.3.6.1.5.5.2\<close> is rejected, the empty input raises.
\<close>

lemma ssh_check_mech_runs:
  "ssh_check_mech der (gss_auth_init ''gssapi-with-mic'' True)
      [CHR 0x06, CHR 0x09, CHR 0x2A, CHR 0x86, CHR 0x48, CHR 0x86, CHR 0xF7, CHR 0x12,
       CHR 0x01, CHR 0x02, CHR 0x02] = Inr True
   \<and> ssh_check_mech der (gss_auth_init ''gssapi-with-mic'' True)
      [CHR 0x06, CHR 0x06, CHR 0x2B, CHR 0x06, CHR 0x01, CHR 0x05, CHR 0x05, CHR 0x02] = Inr False
   \<and> ssh_check_mech der (gss_auth_init ''gssapi-with-mic'' True) [] = Inl PyAsn1Error"
  using ssh_check_mech_code [of der "gss_auth_init ''gssapi-with-mic'' True"
      "[CHR 0x06, CHR 0x09, CHR 0x2A, CHR 0x86, CHR 0x48, CHR 0x86, CHR 0xF7, CHR 0x12,
        CHR 0x01, CHR 0x02, CHR 0x02]" "[1, 2, 840, 113554, 1, 2, 2]" "[]" PyAsn1Error]
    ssh_check_mech_code [of der "gss_auth_init ''gssapi-with-mic'' True"
      "[CHR 0x06, CHR 0x06, CHR 0x2B, CHR 0x06, CHR 0x01, CHR 0x05, CHR 0x05, CHR 0x02]"
      "[1, 3, 6, 1, 5, 5, 2]" "[]" PyAsn1Error]
    ssh_check_mech_code [of der "gss_auth_init ''gssapi-with-mic'' True" "[]"
      "[]" "[]" PyAsn1Error]
    der_decode_krb5 der_decode_spnego
  by (simp add: der_def krb5_mech_init der_decode_def)

text \<open>
  Claim C6 says that \<^verbatim>\<open>ssh_check_mech\<close> returns \<open>True\<close> if and only if the input
  decodes to an object identifier whose string form is \<open>1.2.840.113554.1.2.2\<close>, as the
  docstring of the method does (\<open>True\<close> if the given OID is supported, otherwise
  \<open>False\<close>). The code misses the check of the type: the 22 bytes \<open>04 14\<close> followed by
  the ASCII text \<open>1.2.840.113554.1.2.2\<close> decode to an OCTET STRING, not to an object
  identifier, and \<^verbatim>\<open>ssh_check_mech\<close> returns \<open>True\<close> on them.
\<close>

theorem ssh_check_mech_octet_string:
  "der_decode (CHR 0x04 # CHR 0x14 # ''1.2.840.113554.1.2.2'')
     = Inr (OctetString ''1.2.840.113554.1.2.2'', [])
   \<and> ssh_check_mech der (gss_auth_init ''gssapi-with-mic'' True)
       (CHR 0x04 # CHR 0x14 # ''1.2.840.113554.1.2.2'') = Inr True"
  using der_decode_octet_string
  by (simp add: ssh_check_mech_def der_def bind_def krb5_mech_init)

section \<open>Initialising a context with an unsupported mechanism\<close>

text \<open>
  In the GSS-API backend the name is built first: when \<^verbatim>\<open>gssapi.Name\<close> raises, that
  error is what the caller sees, whatever the desired mechanism.
\<close>

lemma gssapi_init_name_raises:
  "Name lib (''host@'' @ target) C_NT_HOSTBASED_SERVICE = Inl e \<Longrightarrow>
     gssapi_ssh_init_sec_context lib asn target desired_mech usern recv_token (self, w)
       = (Inl e, self\<lparr>username := usern, gss_host := Some target\<rparr>, w)"
  by (simp add: gssapi_ssh_init_sec_context_def prog_defs)

lemma gssapi_init_context_raises:
  "Name lib (''host@'' @ target) C_NT_HOSTBASED_SERVICE = Inr n \<Longrightarrow> Context lib = Inl e \<Longrightarrow>
     gssapi_ssh_init_sec_context lib asn target desired_mech usern recv_token (self, w)
       = (Inl e, self\<lparr>username := usern, gss_host := Some target\<rparr>, w)"
  by (simp add: gssapi_ssh_init_sec_context_def prog_defs)

text \<open>
  Claim C9. In both backends, when \<^verbatim>\<open>desired_mech\<close> decodes to an object identifier
  other than \<open>1.2.840.113554.1.2.2\<close>, \<^verbatim>\<open>ssh_init_sec_context\<close> raises
  \<^verbatim>\<open>SSHException("Unsupported mechanism OID.")\<close>; in the GSS-API backend this is so
  once \<^verbatim>\<open>gssapi.Name\<close> and \<^verbatim>\<open>gssapi.Context()\<close> have returned. At the raise the user
  name and the host have been stored and the two context references of the session are
  unchanged. In the SSPI backend the store of library objects is unchanged. In the
  GSS-API backend the store has gained the local object \<open>c\<close> of \<^verbatim>\<open>gssapi.Context()\<close> at
  a fresh reference and nothing else: \<^verbatim>\<open>InitContext\<close> was not called, and every object
  that existed before the call is as it was, so no context was stepped.
\<close>

theorem init_sec_context_unsupported_mech:
  "(decoder_decode asn dm = Inr (ObjectIdentifier arcs, rest)
      \<and> arcs \<noteq> [1, 2, 840, 113554, 1, 2, 2]
      \<and> krb5_mech self = ''1.2.840.113554.1.2.2''
      \<and> Name lib (''host@'' @ target) C_NT_HOSTBASED_SERVICE = Inr n
      \<and> Context lib = Inr c
    \<longrightarrow> gssapi_ssh_init_sec_context lib asn target (Some dm) usern recv_token (self, w)
          = (Inl (SSHException ''Unsupported mechanism OID.''),
             self\<lparr>username := usern, gss_host := Some target\<rparr>,
             w\<lparr>store := (store w)(next_ref w := c), next_ref := Suc (next_ref w)\<rparr>)
        \<and> gss_ctxt (fst (snd (gssapi_ssh_init_sec_context lib asn target (Some dm) usern
              recv_token (self, w)))) = gss_ctxt self
        \<and> gss_srv_ctxt (fst (snd (gssapi_ssh_init_sec_context lib asn target (Some dm) usern
              recv_token (self, w)))) = gss_srv_ctxt self
        \<and> (\<forall>h. h \<noteq> next_ref w \<longrightarrow>
              store (snd (snd (gssapi_ssh_init_sec_context lib asn target (Some dm) usern
                recv_token (self, w)))) h = store w h))
   \<and> (decoder_decode asn dm = Inr (ObjectIdentifier arcs, rest)
      \<and> arcs \<noteq> [1, 2, 840, 113554, 1, 2, 2]
      \<and> krb5_mech sself = ''1.2.840.113554.1.2.2''
    \<longrightarrow> sspi_ssh_init_sec_context slib asn target (Some dm) usern recv_token (sself, w')
          = (Inl (SSHException ''Unsupported mechanism OID.''),
             sself\<lparr>username := usern, gss_host := Some target\<rparr>, w'))"
proof -
  have g: "gssapi_ssh_init_sec_context lib asn target (Some dm) usern recv_token (self, w)
          = (Inl (SSHException ''Unsupported mechanism OID.''),
             self\<lparr>username := usern, gss_host := Some target\<rparr>,
             w\<lparr>store := (store w)(next_ref w := c), next_ref := Suc (next_ref w)\<rparr>)"
    if d: "decoder_decode asn dm = Inr (ObjectIdentifier arcs, rest)"
      and a: "arcs \<noteq> [1, 2, 840, 113554, 1, 2, 2]"
      and k: "krb5_mech self = ''1.2.840.113554.1.2.2''"
      and nm: "Name lib (''host@'' @ target) C_NT_HOSTBASED_SERVICE = Inr n"
      and cx: "Context lib = Inr c"
  proof -
    have "asn1_str (ObjectIdentifier arcs) \<noteq> ''1.2.840.113554.1.2.2''"
      using a oid_str_is_krb5 [of arcs] by blast
    with d k nm cx show ?thesis
      by (simp add: gssapi_ssh_init_sec_context_def prog_defs del: asn1_str.simps)
  qed
  have s: "sspi_ssh_init_sec_context slib asn target (Some dm) usern recv_token (sself, w')
          = (Inl (SSHException ''Unsupported mechanism OID.''),
             sself\<lparr>username := usern, gss_host := Some target\<rparr>, w')"
    if d: "decoder_decode asn dm = Inr (ObjectIdentifier arcs, rest)"
      and a: "arcs \<noteq> [1, 2, 840, 113554, 1, 2, 2]"
      and k: "krb5_mech sself = ''1.2.840.113554.1.2.2''"
  proof -
    have "asn1_str (ObjectIdentifier arcs) \<noteq> ''1.2.840.113554.1.2.2''"
      using a oid_str_is_krb5 [of arcs] by blast
    with d k show ?thesis
      by (simp add: sspi_ssh_init_sec_context_def prog_defs del: asn1_str.simps)
  qed
  show ?thesis
  proof (intro conjI impI)
    assume h: "decoder_decode asn dm = Inr (ObjectIdentifier arcs, rest)
      \<and> arcs \<noteq> [1, 2, 840, 113554, 1, 2, 2]
      \<and> krb5_mech sself = ''1.2.840.113554.1.2.2''"
    then show "sspi_ssh_init_sec_context slib asn target (Some dm) usern recv_token (sself, w')
          = (Inl (SSHException ''Unsupported mechanism OID.''),
             sself\<lparr>username := usern, gss_host := Some target\<rparr>, w')"
      using s by blast
  next
    assume h: "decoder_decode asn dm = Inr (ObjectIdentifier arcs, rest)
      \<and> arcs \<noteq> [1, 2, 840, 113554, 1, 2, 2]
      \<and> krb5_mech self = ''1.2.840.113554.1.2.2''
      \<and> Name lib (''host@'' @ target) C_NT_HOSTBASED_SERVICE = Inr n
      \<and> Context lib = Inr c"
    then have e: "gssapi_ssh_init_sec_context lib asn target (Some dm) usern recv_token (self, w)
          = (Inl (SSHException ''Unsupported mechanism OID.''),
             self\<lparr>username := usern, gss_host := Some target\<rparr>,
             w\<lparr>store := (store w)(next_ref w := c), next_ref := Suc (next_ref w)\<rparr>)"
      using g by blast
    show "gssapi_ssh_init_sec_context lib asn target (Some dm) usern recv_token (self, w)
          = (Inl (SSHException ''Unsupported mechanism OID.''),
             self\<lparr>username := usern, gss_host := Some target\<rparr>,
             w\<lparr>store := (store w)(next_ref w := c), next_ref := Suc (next_ref w)\<rparr>)"
      by (rule e)
    show "gss_ctxt (fst (snd (gssapi_ssh_init_sec_context lib asn target (Some dm) usern
              recv_token (self, w)))) = gss_ctxt self"
      by (simp add: e)
    show "gss_srv_ctxt (fst (snd (gssapi_ssh_init_sec_context lib asn target (Some dm) usern
              recv_token (self, w)))) = gss_srv_ctxt self"
      by (simp add: e)
    show "\<forall>h. h \<noteq> next_ref w \<longrightarrow>
              store (snd (snd (gssapi_ssh_init_sec_context lib asn target (Some dm) usern
                recv_token (self, w)))) h = store w h"
      by (simp add: e)
  qed
qed

text \<open>
  A run of both backends with the SPNEGO identifier as desired mechanism, on a fresh
  session and an empty store: the GSS-API run ends with one object in the store, the
  local \<^verbatim>\<open>gssapi.Context()\<close>, and no client context; the SSPI run ends with none.
\<close>

theorem init_sec_context_unsupported_mech_witness:
  "gssapi_ssh_init_sec_context demo_gssapi der ''host''
      (Some [CHR 0x06, CHR 0x06, CHR 0x2B, CHR 0x06, CHR 0x01, CHR 0x05, CHR 0x05, CHR 0x02])
      (Some ''alice'') None (gssapi_init ''gssapi-with-mic'' True, world0)
     = (Inl (SSHException ''Unsupported mechanism OID.''),
        (gssapi_init ''gssapi-with-mic'' True)\<lparr>username := Some ''alice'', gss_host := Some ''host''\<rparr>,
        world0\<lparr>store := (store world0)(next_ref world0 := 0), next_ref := Suc (next_ref world0)\<rparr>)
   \<and> gss_ctxt (fst (snd (gssapi_ssh_init_sec_context demo_gssapi der ''host''
      (Some [CHR 0x06, CHR 0x06, CHR 0x2B, CHR 0x06, CHR 0x01, CHR 0x05, CHR 0x05, CHR 0x02])
      (Some ''alice'') None (gssapi_init ''gssapi-with-mic'' True, world0)))) = None
   \<and> sspi_ssh_init_sec_context demo_sspi der ''host''
      (Some [CHR 0x06, CHR 0x06, CHR 0x2B, CHR 0x06, CHR 0x01, CHR 0x05, CHR 0x05, CHR 0x02])
      (Some ''alice'') None (sspi_init pywin32_sspicon ''gssapi-with-mic'' True, world0)
     = (Inl (SSHException ''Unsupported mechanism OID.''),
        (sspi_init pywin32_sspicon ''gssapi-with-mic'' True)
          \<lparr>username := Some ''alice'', gss_host := Some ''host''\<rparr>,
        world0)"
  using init_sec_context_unsupported_mech [where asn = der
      and dm = "[CHR 0x06, CHR 0x06, CHR 0x2B, CHR 0x06, CHR 0x01, CHR 0x05, CHR 0x05, CHR 0x02]"
      and arcs = "[1, 3, 6, 1, 5, 5, 2]" and rest = "[]"
      and self = "gssapi_init ''gssapi-with-mic'' True"
      and sself = "sspi_init pywin32_sspicon ''gssapi-with-mic'' True"
      and lib = demo_gssapi and slib = demo_sspi and target = "''host''"
      and n = "GssName ''host@host'' C_NT_HOSTBASED_SERVICE" and c = 0
      and usern = "Some ''alice''" and recv_token = None and w = world0 and w' = world0]
    der_decode_spnego
  by (simp add: der_def init_defs demo_gssapi_def)

section \<open>The list of supported mechanisms\<close>

lemma horner_256:
  "(n :: nat) = a * 256 + r0 \<Longrightarrow> a = b * 256 + r1 \<Longrightarrow> b = c * 256 + r2 \<Longrightarrow>
     ((c * 256 + r2) * 256 + r1) * 256 + r0 = n"
  by simp

lemma uint32_nested:
  "uint32 n = [char_of (n div 256 div 256 div 256), char_of (n div 256 div 256),
               char_of (n div 256), char_of n]"
proof -
  have a: "n div 256 div 256 = n div 65536"
    by (simp add: div_mult2_eq [symmetric])
  have b: "n div 65536 div 256 = n div 16777216"
    by (simp add: div_mult2_eq [symmetric])
  show ?thesis by (simp add: uint32_def a b)
qed

lemma be_value_uint32: "n < 2 ^ 32 \<Longrightarrow> be_value (uint32 n) = n"
proof -
  assume b: "n < 2 ^ 32"
  have c: "n div 256 div 256 div 256 < 256"
    using b by (simp add: div_mult2_eq less_mult_imp_div_less)
  have "be_value (uint32 n)
      = ((n div 256 div 256 div 256 * 256 + n div 256 div 256 mod 256) * 256
          + n div 256 mod 256) * 256 + n mod 256"
    using c by (simp only: uint32_nested be_value_def foldl.simps of_char_of) simp
  also have "\<dots> = n"
    by (rule horner_256) simp_all
  finally show ?thesis .
qed

lemma make_uint32_1: "make_uint32 1 = Inr (uint32 1)"
  using make_uint32_uint32 [of 1] by simp

text \<open>
  Claim C7. Let \<open>D\<close> be the encoding that the library gives the object identifier built
  from \<^verbatim>\<open>self._krb5_mech\<close>. Then \<^verbatim>\<open>ssh_gss_oids\<close> returns
  \<open>uint32(1) || uint32(len(D)) || D\<close> in client mode (and for every mode other than
  \<open>server\<close>), and \<open>uint32(len(D)) || D\<close> in server mode; the two length fields read back
  as big-endian numbers; and when the decoder maps \<open>D\<close> back to that identifier, the
  segment after the first 8 bytes of the client output passes \<^verbatim>\<open>ssh_check_mech\<close>.
\<close>

theorem ssh_gss_oids_layout:
  "ObjectIdentifier_of_str asn (krb5_mech self) = Inr oid \<and> encoder_encode asn oid = Inr D
     \<and> length D < 2 ^ 32
   \<longrightarrow> ssh_gss_oids asn self ''client'' = Inr (uint32 1 @ uint32 (length D) @ D)
       \<and> ssh_gss_oids asn self ''server'' = Inr (uint32 (length D) @ D)
       \<and> (mode \<noteq> ''server'' \<longrightarrow>
            ssh_gss_oids asn self mode = Inr (uint32 1 @ uint32 (length D) @ D))
       \<and> be_value (uint32 1) = 1 \<and> be_value (uint32 (length D)) = length D
       \<and> (decoder_decode asn D = Inr (oid, rest) \<and> asn1_str oid = krb5_mech self
            \<longrightarrow> ssh_check_mech asn self (drop 8 (uint32 1 @ uint32 (length D) @ D)) = Inr True)"
proof
  assume h: "ObjectIdentifier_of_str asn (krb5_mech self) = Inr oid
     \<and> encoder_encode asn oid = Inr D \<and> length D < 2 ^ 32"
  have m: "ssh_gss_oids asn self m' =
      (if m' = ''server'' then Inr (uint32 (length D) @ D)
       else Inr (uint32 1 @ uint32 (length D) @ D))" for m'
    using h by (simp add: ssh_gss_oids_def bind_def make_uint32_1 make_uint32_uint32)
  have d: "drop 8 (uint32 1 @ uint32 (length D) @ D) = D"
    by (simp add: uint32_def)
  have r: "ssh_check_mech asn self (drop 8 (uint32 1 @ uint32 (length D) @ D)) = Inr True"
    if "decoder_decode asn D = Inr (oid, rest)" and "asn1_str oid = krb5_mech self"
    using that by (simp only: d) (simp add: ssh_check_mech_def bind_def)
  have v: "be_value (uint32 1) = 1 \<and> be_value (uint32 (length D)) = length D"
    using h be_value_uint32 [of 1] be_value_uint32 [of "length D"] by simp
  from m r v show "ssh_gss_oids asn self ''client'' = Inr (uint32 1 @ uint32 (length D) @ D)
       \<and> ssh_gss_oids asn self ''server'' = Inr (uint32 (length D) @ D)
       \<and> (mode \<noteq> ''server'' \<longrightarrow>
            ssh_gss_oids asn self mode = Inr (uint32 1 @ uint32 (length D) @ D))
       \<and> be_value (uint32 1) = 1 \<and> be_value (uint32 (length D)) = length D
       \<and> (decoder_decode asn D = Inr (oid, rest) \<and> asn1_str oid = krb5_mech self
            \<longrightarrow> ssh_check_mech asn self (drop 8 (uint32 1 @ uint32 (length D) @ D)) = Inr True)"
    by simp
qed

text \<open>The DER encoding of the Kerberos V5 identifier: 11 bytes.\<close>

lemma nine: "Suc (Suc (Suc (Suc (Suc (Suc (Suc (Suc (Suc 0)))))))) = 9"
  by simp

lemma der_encode_krb5:
  "der_encode (ObjectIdentifier [1, 2, 840, 113554, 1, 2, 2]) = Inr krb5_DER"
  by (simp add: der_encode_def subid_octets_def septets.simps der_length_def krb5_DER_def
      nine byte_simps)

lemma length_krb5_DER: "length krb5_DER = 11"
  by (simp add: krb5_DER_def)

lemma der_decode_krb5_DER:
  "der_decode krb5_DER = Inr (ObjectIdentifier [1, 2, 840, 113554, 1, 2, 2], [])"
  using der_decode_krb5 by (simp add: krb5_DER_def)

text \<open>
  With the DER instance on a fresh session: the client output is
  \<open>00 00 00 01 00 00 00 0b 06 09 2a 86 48 86 f7 12 01 02 02\<close>.
\<close>

theorem ssh_gss_oids_layout_witness:
  "ssh_gss_oids der (gss_auth_init ''gssapi-with-mic'' True) ''client''
     = Inr (uint32 1 @ uint32 11 @ krb5_DER)
   \<and> ssh_gss_oids der (gss_auth_init ''gssapi-with-mic'' True) ''server''
     = Inr (uint32 11 @ krb5_DER)
   \<and> ssh_check_mech der (gss_auth_init ''gssapi-with-mic'' True)
       (drop 8 (uint32 1 @ uint32 11 @ krb5_DER)) = Inr True"
  using ssh_gss_oids_layout [where asn = der and self = "gss_auth_init ''gssapi-with-mic'' True"
      and oid = "ObjectIdentifier [1, 2, 840, 113554, 1, 2, 2]" and D = krb5_DER
      and mode = "''client''" and rest = "[]"]
    der_encode_krb5 der_decode_krb5_DER oid_of_str_krb5 asn1_str_krb5
  by (simp add: der_def krb5_mech_init length_krb5_DER del: asn1_str.simps)

section \<open>The MIC of a key exchange\<close>

text \<open>\<^verbatim>\<open>ssh_init_sec_context\<close> never assigns the server context.\<close>

lemma gssapi_init_keeps_srv_ctxt:
  "gss_srv_ctxt (fst (snd (gssapi_ssh_init_sec_context lib asn target dm usern rt (self, w))))
     = gss_srv_ctxt self"
  by (auto simp: gssapi_ssh_init_sec_context_def prog_defs
      split: sum.splits option.splits prod.splits)

lemma sspi_init_keeps_srv_ctxt:
  "gss_srv_ctxt (fst (snd (sspi_ssh_init_sec_context lib asn target dm usern rt (self, w))))
     = gss_srv_ctxt self"
  by (auto simp: sspi_ssh_init_sec_context_def prog_defs
      split: sum.splits option.splits prod.splits)

lemma gssapi_client_run_keeps_srv_ctxt:
  "gss_srv_ctxt (fst (gssapi_client_run lib asn calls s)) = gss_srv_ctxt (fst s)"
proof (induction calls arbitrary: s)
  case Nil
  show ?case by simp
next
  case (Cons call calls)
  obtain target dm usern rt where c: "call = (target, dm, usern, rt)"
    by (cases call) auto
  obtain self w where s: "s = (self, w)" by (cases s)
  show ?case
    using Cons.IH [of "snd (gssapi_ssh_init_sec_context lib asn target dm usern rt (self, w))"]
      gssapi_init_keeps_srv_ctxt [of lib asn target dm usern rt self w]
    by (simp add: c s)
qed

lemma sspi_client_run_keeps_srv_ctxt:
  "gss_srv_ctxt (fst (sspi_client_run lib asn calls s)) = gss_srv_ctxt (fst s)"
proof (induction calls arbitrary: s)
  case Nil
  show ?case by simp
next
  case (Cons call calls)
  obtain target dm usern rt where c: "call = (target, dm, usern, rt)"
    by (cases call) auto
  obtain self w where s: "s = (self, w)" by (cases s)
  show ?case
    using Cons.IH [of "snd (sspi_ssh_init_sec_context lib asn target dm usern rt (self, w))"]
      sspi_init_keeps_srv_ctxt [of lib asn target dm usern rt self w]
    by (simp add: c s)
qed

lemma gssapi_kex_get_mic:
  "fst (gssapi_ssh_get_mic lib sid True (self, w))
     = (case gss_srv_ctxt self of None \<Rightarrow> Inl AttributeError
        | Some h \<Rightarrow> fst (get_mic lib (store w h) sid))"
  by (simp add: gssapi_ssh_get_mic_def prog_defs split: option.splits)

lemma sspi_kex_get_mic:
  "fst (sspi_ssh_get_mic lib sid True (self, w))
     = (case gss_srv_ctxt self of None \<Rightarrow> Inl AttributeError
        | Some h \<Rightarrow> fst (sign lib (store w h) sid))"
  by (simp add: sspi_ssh_get_mic_def prog_defs split: option.splits)

lemma gssapi_kex_check_mic:
  "fst (gssapi_ssh_check_mic lib tok sid None (self, w))
     = (case gss_ctxt self of None \<Rightarrow> Inl AttributeError
        | Some h \<Rightarrow> fst (verify_mic lib (store w h) sid tok))"
  by (simp add: gssapi_ssh_check_mic_def prog_defs split: option.splits)

lemma sspi_kex_check_mic:
  "fst (sspi_ssh_check_mic lib tok sid None (self, w))
     = (case gss_ctxt self of None \<Rightarrow> Inl AttributeError
        | Some h \<Rightarrow> map_sum id (\<lambda>_. PyInt 0) (fst (verify lib (store w h) sid tok)))"
  by (auto simp: sspi_ssh_check_mic_def prog_defs split: option.splits sum.splits)

text \<open>
  Claim C10. In both backends \<^verbatim>\<open>ssh_get_mic\<close> with \<^verbatim>\<open>gss_kex\<close> set signs the raw
  session id with the server context (\<^verbatim>\<open>_gss_srv_ctxt\<close>) and raises
  \<^verbatim>\<open>AttributeError\<close> when there is none, whereas \<^verbatim>\<open>ssh_check_mic\<close> without a user
  name verifies with the client context (\<^verbatim>\<open>_gss_ctxt\<close>). Hence on a session that was
  only driven through \<^verbatim>\<open>ssh_init_sec_context\<close>, whatever the calls and their outcomes,
  a key-exchange \<^verbatim>\<open>ssh_get_mic\<close> fails on the missing server context.
\<close>

theorem kex_get_mic_server_context:
  "fst (gssapi_ssh_get_mic lib sid True (self, w))
     = (case gss_srv_ctxt self of None \<Rightarrow> Inl AttributeError
        | Some h \<Rightarrow> fst (get_mic lib (store w h) sid))
   \<and> fst (sspi_ssh_get_mic slib sid True (sself, w'))
     = (case gss_srv_ctxt sself of None \<Rightarrow> Inl AttributeError
        | Some h \<Rightarrow> fst (sign slib (store w' h) sid))
   \<and> fst (gssapi_ssh_check_mic lib tok sid None (self, w))
     = (case gss_ctxt self of None \<Rightarrow> Inl AttributeError
        | Some h \<Rightarrow> fst (verify_mic lib (store w h) sid tok))
   \<and> fst (sspi_ssh_check_mic slib tok sid None (sself, w'))
     = (case gss_ctxt sself of None \<Rightarrow> Inl AttributeError
        | Some h \<Rightarrow> map_sum id (\<lambda>_. PyInt 0) (fst (verify slib (store w' h) sid tok)))
   \<and> fst (gssapi_ssh_get_mic lib sid True
          (gssapi_client_run lib asn calls (gssapi_init am dc, w))) = Inl AttributeError
   \<and> fst (sspi_ssh_get_mic slib sid True
          (sspi_client_run slib asn calls (sspi_init con am dc, w'))) = Inl AttributeError"
proof -
  have g: "gss_srv_ctxt (fst (gssapi_client_run lib asn calls (gssapi_init am dc, w))) = None"
    by (simp add: gssapi_client_run_keeps_srv_ctxt init_defs)
  have s: "gss_srv_ctxt (fst (sspi_client_run slib asn calls (sspi_init con am dc, w'))) = None"
    by (simp add: sspi_client_run_keeps_srv_ctxt init_defs)
  have g': "fst (gssapi_ssh_get_mic lib sid True
          (gssapi_client_run lib asn calls (gssapi_init am dc, w))) = Inl AttributeError"
    using g gssapi_kex_get_mic [of lib sid
        "fst (gssapi_client_run lib asn calls (gssapi_init am dc, w))"
        "snd (gssapi_client_run lib asn calls (gssapi_init am dc, w))"]
    by simp
  have s': "fst (sspi_ssh_get_mic slib sid True
          (sspi_client_run slib asn calls (sspi_init con am dc, w'))) = Inl AttributeError"
    using s sspi_kex_get_mic [of slib sid
        "fst (sspi_client_run slib asn calls (sspi_init con am dc, w'))"
        "snd (sspi_client_run slib asn calls (sspi_init con am dc, w'))"]
    by simp
  show ?thesis
    using g' s' gssapi_kex_get_mic [of lib sid self w] sspi_kex_get_mic [of slib sid sself w']
      gssapi_kex_check_mic [of lib tok sid self w] sspi_kex_check_mic [of slib tok sid sself w']
    by simp
qed

text \<open>
  Two client calls in each backend: the client context exists and the key-exchange MIC
  still fails.
\<close>

theorem kex_get_mic_server_context_witness:
  "gss_ctxt (fst (gssapi_client_run demo_gssapi der
       [(''host'', None, Some ''alice'', None), (''host'', None, Some ''alice'', Some ''reply'')]
       (gssapi_init ''gss-keyex'' True, world0))) = Some 1
   \<and> fst (gssapi_ssh_get_mic demo_gssapi ''sid'' True
       (gssapi_client_run demo_gssapi der
          [(''host'', None, Some ''alice'', None), (''host'', None, Some ''alice'', Some ''reply'')]
          (gssapi_init ''gss-keyex'' True, world0))) = Inl AttributeError
   \<and> gss_ctxt (fst (sspi_client_run demo_sspi der
       [(''host'', None, Some ''alice'', None), (''host'', None, Some ''alice'', Some ''reply'')]
       (sspi_init pywin32_sspicon ''gss-keyex'' True, world0))) = Some 0
   \<and> fst (sspi_ssh_get_mic demo_sspi ''sid'' True
       (sspi_client_run demo_sspi der
          [(''host'', None, Some ''alice'', None), (''host'', None, Some ''alice'', Some ''reply'')]
          (sspi_init pywin32_sspicon ''gss-keyex'' True, world0))) = Inl AttributeError"
proof -
  have g: "gss_ctxt (fst (gssapi_client_run demo_gssapi der
       [(''host'', None, Some ''alice'', None), (''host'', None, Some ''alice'', Some ''reply'')]
       (gssapi_init ''gss-keyex'' True, world0))) = Some 1"
    by (simp add: gssapi_ssh_init_sec_context_def prog_defs demo_gssapi_def world0_def init_defs)
  have s: "gss_ctxt (fst (sspi_client_run demo_sspi der
       [(''host'', None, Some ''alice'', None), (''host'', None, Some ''alice'', Some ''reply'')]
       (sspi_init pywin32_sspicon ''gss-keyex'' True, world0))) = Some 0"
    by (simp add: sspi_ssh_init_sec_context_def prog_defs demo_sspi_def world0_def init_defs)
  show ?thesis
    using g s kex_get_mic_server_context [where lib = demo_gssapi and slib = demo_sspi
        and asn = der and sid = "''sid''" and am = "''gss-keyex''" and dc = True
        and con = pywin32_sspicon and w = world0 and w' = world0
        and calls = "[(''host'', None, Some ''alice'', None),
                      (''host'', None, Some ''alice'', Some ''reply'')]"]
    by simp
qed

end
